theory Spec2Isabelle
  imports Complex_Main "HOL-Library.Char_ord" "HOL-Library.List_Lexorder"
begin

section \<open>Strings\<close>

text \<open>
  A Python string is a sequence of Unicode code points; it is held here as a
  \<open>string\<close>, the list of the bytes of its UTF-8 encoding. \<open>w in s\<close> on strings is
  the contiguous-substring test (on UTF-8 bytes it finds the same occurrences as on code
  points). \<open>lower\<close> is \<open>str.lower()\<close> on ASCII text: it maps the letters A..Z to
  a..z and leaves every other byte alone. The library function also lower-cases
  non-ASCII letters; where a statement is about lower-casing itself (colour
  standardisation below), the library function is a parameter of the model instead.
\<close>

definition letter_table :: "(char \<times> char) list" where
  "letter_table = zip ''ABCDEFGHIJKLMNOPQRSTUVWXYZ'' ''abcdefghijklmnopqrstuvwxyz''"

definition lower_char :: "char \<Rightarrow> char" where
  "lower_char c = (case map_of letter_table c of Some l \<Rightarrow> l | None \<Rightarrow> c)"

definition lower :: "string \<Rightarrow> string" where
  "lower s = map lower_char s"

fun starts_with :: "string \<Rightarrow> string \<Rightarrow> bool" where
  "starts_with [] s = True"
| "starts_with (c # w) [] = False"
| "starts_with (c # w) (d # s) = (c = d \<and> starts_with w s)"

fun substr_in :: "string \<Rightarrow> string \<Rightarrow> bool" where
  "substr_in w [] = (w = [])"
| "substr_in w (c # s) = (starts_with w (c # s) \<or> substr_in w s)"

definition any_word_in :: "string list \<Rightarrow> string \<Rightarrow> bool" where
  "any_word_in words s = list_ex (\<lambda>w. substr_in w s) words"

text \<open>The white space of \<open>str.split()\<close> and \<open>str.strip()\<close>, on ASCII text.\<close>

definition is_space :: "char \<Rightarrow> bool" where
  "is_space c = (c \<in> set [CHR '' '', CHR 0x09, CHR 0x0A, CHR 0x0B, CHR 0x0C, CHR 0x0D,
                            CHR 0x1C, CHR 0x1D, CHR 0x1E, CHR 0x1F])"

section \<open>Wardrobe categorizer: colour standardisation\<close>

text \<open>
  \<open>OutfitService._standardize_color\<close>: the dictionary \<open>color_map\<close> is walked in
  insertion order and the first standard colour one of whose variants occurs in the
  lower-cased input is returned; with no match the lower-cased input is returned.
  The function is modelled for an arbitrary lower-casing function \<open>low\<close>, standing
  for \<open>str.lower\<close> on all Unicode strings; \<open>standardize_color\<close> is its instance at
  \<open>lower\<close>.
\<close>

definition color_map :: "(string \<times> string list) list" where
  "color_map =
     [(''navy'', [''navy'', ''dark blue'', ''deep blue'']),
      (''blue'', [''blue'', ''light blue'', ''sky blue'']),
      (''black'', [''black'', ''charcoal'', ''dark'']),
      (''white'', [''white'', ''ivory'', ''cream'', ''off-white'']),
      (''gray'', [''gray'', ''grey'', ''slate'']),
      (''red'', [''red'', ''crimson'', ''scarlet'']),
      (''green'', [''green'', ''olive'', ''emerald'']),
      (''brown'', [''brown'', ''tan'', ''beige'', ''khaki'']),
      (''purple'', [''purple'', ''violet'', ''lavender'']),
      (''yellow'', [''yellow'', ''gold'', ''mustard'']),
      (''pink'', [''pink'', ''rose'', ''blush'']),
      (''orange'', [''orange'', ''rust'', ''coral''])]"

fun first_color_match :: "(string \<times> string list) list \<Rightarrow> string \<Rightarrow> string option" where
  "first_color_match [] s = None"
| "first_color_match ((standard_color, variants) # rest) s =
     (if any_word_in variants s then Some standard_color else first_color_match rest s)"

definition standardize_color_with :: "(string \<Rightarrow> string) \<Rightarrow> string \<Rightarrow> string" where
  "standardize_color_with low color =
     (let color_lower = low color in
      case first_color_match color_map color_lower of
        Some standard_color \<Rightarrow> standard_color
      | None \<Rightarrow> color_lower)"

definition standardize_color :: "string \<Rightarrow> string" where
  "standardize_color color = standardize_color_with lower color"

section \<open>Wardrobe items\<close>

text \<open>
  A clothing item is a Python dictionary. Every read in the services is of the form
  \<open>item.get(k, '')\<close> or a truthiness test, so an absent string field and an empty one
  behave alike and are both modelled by the empty string. The fields \<open>_id\<close>,
  \<open>item_type\<close> and \<open>embedding\<close> are read with \<open>None\<close>-sensitive code and are options.
\<close>

record item =
  item_id :: string
  item_oid :: "string option"
  item_type :: "string option"
  item_name :: string
  description :: string
  category :: string
  subcategory :: string
  season :: "string list"
  formality :: string
  color :: string
  material :: string
  embedding :: "real list option"

text \<open>\<open>item.get('id') or str(item.get('_id'))\<close>; \<open>str(None)\<close> is \<open>'None'\<close>.\<close>

definition item_key :: "item \<Rightarrow> string" where
  "item_key it =
     (if item_id it \<noteq> [] then item_id it
      else (case item_oid it of None \<Rightarrow> ''None'' | Some s \<Rightarrow> s))"

subsection \<open>Field inference (\<open>_process_clothing_item\<close> and its detectors)\<close>

definition detect_tops_words :: "string list" where
  "detect_tops_words = [''shirt'', ''t-shirt'', ''blouse'', ''top'', ''sweater'', ''hoodie'',
                        ''jersey'', ''polo'']"

definition detect_bottoms_words :: "string list" where
  "detect_bottoms_words = [''jeans'', ''pants'', ''trousers'', ''skirt'', ''shorts'',
                           ''leggings'', ''chinos'']"

definition detect_dresses_words :: "string list" where
  "detect_dresses_words = [''dress'', ''jumpsuit'', ''romper'', ''gown'']"

definition detect_outerwear_words :: "string list" where
  "detect_outerwear_words = [''jacket'', ''coat'', ''blazer'', ''cardigan'', ''vest'', ''parka'']"

definition detect_shoes_words :: "string list" where
  "detect_shoes_words = [''shoes'', ''sneakers'', ''boots'', ''sandals'', ''heels'', ''flats'',
                         ''loafers'']"

definition detect_accessories_words :: "string list" where
  "detect_accessories_words = [''belt'', ''scarf'', ''hat'', ''bag'', ''wallet'', ''watch'',
                               ''jewelry'']"

text \<open>The description is lower-cased by the function and then never read.\<close>

definition detect_category :: "item \<Rightarrow> string" where
  "detect_category it =
     (let name = lower (item_name it); descr = lower (description it) in
      if any_word_in detect_tops_words name then ''tops''
      else if any_word_in detect_bottoms_words name then ''bottoms''
      else if any_word_in detect_dresses_words name then ''dresses''
      else if any_word_in detect_outerwear_words name then ''outerwear''
      else if any_word_in detect_shoes_words name then ''shoes''
      else if any_word_in detect_accessories_words name then ''accessories''
      else ''other'')"

definition detect_subcategory :: "item \<Rightarrow> string" where
  "detect_subcategory it =
     (let name = lower (item_name it); cat = lower (category it) in
      if cat = ''tops'' then
        (if substr_in ''t-shirt'' name \<or> substr_in ''tee'' name then ''t-shirt''
         else if substr_in ''shirt'' name then ''shirt''
         else if substr_in ''sweater'' name \<or> substr_in ''jumper'' name then ''sweater''
         else if substr_in ''hoodie'' name then ''hoodie''
         else if substr_in ''blouse'' name then ''blouse''
         else ''general'')
      else if cat = ''bottoms'' then
        (if substr_in ''jeans'' name then ''jeans''
         else if substr_in ''pants'' name \<or> substr_in ''trousers'' name then ''pants''
         else if substr_in ''shorts'' name then ''shorts''
         else if substr_in ''skirt'' name then ''skirt''
         else ''general'')
      else ''general'')"

definition detect_seasonality :: "item \<Rightarrow> string list" where
  "detect_seasonality it =
     (let mat = lower (material it);
          s1 = (if any_word_in [''wool'', ''fleece'', ''thermal'', ''down'', ''cashmere'',
                                ''knit''] mat then [''winter'', ''fall''] else []);
          s2 = s1 @ (if any_word_in [''linen'', ''cotton'', ''breathable'', ''light'',
                                     ''seersucker''] mat then [''summer'', ''spring''] else [])
      in if s2 = [] then [''spring'', ''summer'', ''fall'', ''winter''] else s2)"

definition detect_formality :: "item \<Rightarrow> string" where
  "detect_formality it =
     (let name = lower (item_name it) in
      if any_word_in [''suit'', ''blazer'', ''tuxedo'', ''dress shirt'', ''tie'', ''heels'',
                      ''loafers''] name then ''formal''
      else if any_word_in [''dress pants'', ''button-down'', ''blouse'', ''slacks'',
                           ''oxfords''] name then ''business''
      else if any_word_in [''t-shirt'', ''jeans'', ''sneakers'', ''hoodie'', ''shorts''] name
        then ''casual''
      else if any_word_in [''activewear'', ''joggers'', ''tank'', ''gym'', ''sport''] name
        then ''sport''
      else ''casual'')"

text \<open>
  \<open>_process_clothing_item\<close>: the detectors read the original record \<open>item\<close>, the
  updates go to the copy. A field that is already set is never overwritten.
\<close>

definition process_clothing_item :: "item \<Rightarrow> item" where
  "process_clothing_item it =
     (let p1 = (case item_oid it of None \<Rightarrow> it | Some oid \<Rightarrow> it\<lparr>item_id := oid\<rparr>);
          p2 = (if category p1 = [] then p1\<lparr>category := detect_category it\<rparr> else p1);
          p3 = (if subcategory p2 = [] then p2\<lparr>subcategory := detect_subcategory it\<rparr> else p2);
          p4 = (if season p3 = [] then p3\<lparr>season := detect_seasonality it\<rparr> else p3);
          p5 = (if formality p4 = [] then p4\<lparr>formality := detect_formality it\<rparr> else p4);
          p6 = (if material p5 \<noteq> [] then p5\<lparr>material := lower (material p5)\<rparr> else p5)
      in if color p6 \<noteq> [] then p6\<lparr>color := standardize_color (color p6)\<rparr> else p6)"

text \<open>
  \<open>get_user_wardrobe\<close>: the rows come from the document store (an external
  collaborator); a failed or empty query yields the empty list.
\<close>

definition get_user_wardrobe :: "item list \<Rightarrow> item list" where
  "get_user_wardrobe rows = map process_clothing_item rows"

subsection \<open>Bucketing by category (\<open>OutfitService._categorize_items\<close>)\<close>

text \<open>
  The six buckets, together with the warnings the function logs (one per item that
  matched no keyword, carrying the item's name).
\<close>

record categorized =
  tops :: "item list"
  bottoms :: "item list"
  dresses :: "item list"
  outerwear :: "item list"
  shoes :: "item list"
  accessories :: "item list"
  warnings :: "string list"

definition no_buckets :: categorized where
  "no_buckets = \<lparr>tops = [], bottoms = [], dresses = [], outerwear = [], shoes = [],
                 accessories = [], warnings = []\<rparr>"

definition word_hits :: "string list \<Rightarrow> string \<Rightarrow> string \<Rightarrow> bool" where
  "word_hits words cat name = list_ex (\<lambda>w. substr_in w cat \<or> substr_in w name) words"

definition tops_words :: "string list" where
  "tops_words = [''shirt'', ''top'', ''blouse'', ''t-shirt'', ''tee'', ''sweater'', ''tank'',
                 ''polo'', ''jersey'']"

definition bottoms_words :: "string list" where
  "bottoms_words = [''pant'', ''jean'', ''trouser'', ''skirt'', ''short'', ''legging'', ''chino'']"

definition dresses_words :: "string list" where
  "dresses_words = [''dress'', ''gown'', ''jumpsuit'', ''romper'']"

definition outerwear_words :: "string list" where
  "outerwear_words = [''jacket'', ''coat'', ''hoodie'', ''blazer'', ''cardigan'', ''vest'',
                      ''parka'', ''windbreaker'']"

definition shoes_words :: "string list" where
  "shoes_words = [''shoe'', ''boot'', ''sandal'', ''sneaker'', ''heel'', ''flat'', ''loafer'',
                  ''slipper'']"

definition accessories_words :: "string list" where
  "accessories_words = [''accessory'', ''accessories'', ''bag'', ''hat'', ''cap'', ''scarf'',
                        ''belt'', ''watch'', ''jewelry'', ''sunglass'']"

definition categorize_item :: "categorized \<Rightarrow> item \<Rightarrow> categorized" where
  "categorize_item c it =
     (let cat = lower (category it); name = lower (item_name it) in
      if word_hits tops_words cat name then c\<lparr>tops := tops c @ [it]\<rparr>
      else if word_hits bottoms_words cat name then c\<lparr>bottoms := bottoms c @ [it]\<rparr>
      else if word_hits dresses_words cat name then c\<lparr>dresses := dresses c @ [it]\<rparr>
      else if word_hits outerwear_words cat name then c\<lparr>outerwear := outerwear c @ [it]\<rparr>
      else if word_hits shoes_words cat name then c\<lparr>shoes := shoes c @ [it]\<rparr>
      else if word_hits accessories_words cat name
        then c\<lparr>accessories := accessories c @ [it]\<rparr>
      else c\<lparr>tops := tops c @ [it], warnings := warnings c @ [item_name it]\<rparr>)"

definition categorize_items :: "item list \<Rightarrow> categorized" where
  "categorize_items its = foldl categorize_item no_buckets its"

section \<open>Candidate outfit generator\<close>

subsection \<open>The random source\<close>

text \<open>
  \<open>_create_outfit_from_categories\<close>, \<open>score_outfit\<close> and \<open>_get_mock_outfits\<close>
  draw from Python's \<open>random\<close> module. Every call site runs at most once per
  generation attempt, so one attempt is given a record holding one independent draw per
  call site: the \<open>u_\<close> fields are the values returned by \<open>random.random()\<close> and
  \<open>random.uniform\<close>, the \<open>k_\<close> fields are raw naturals from which
  \<open>random.choice\<close>, \<open>random.randint\<close> and \<open>random.sample\<close> take their indices.
  A generation run receives a function from the attempt number to such a record, and all
  results are proved for every such function.
\<close>

record draws =
  u_dress :: real
  k_dress :: nat
  k_dress_shoes :: nat
  u_dress_outer :: real
  k_dress_outer :: nat
  u_dress_acc :: real
  k_dress_acc :: nat
  k_top :: nat
  k_bottom :: nat
  u_shoes :: real
  k_shoes :: nat
  u_outer :: real
  k_outer :: nat
  u_acc :: real
  k_num_acc :: nat
  k_sample :: "nat list"
  u_style :: real
  u_mock_style :: real
  u_mock_color :: real
  u_mock_occasion :: real
  u_mock_weather :: real

text \<open>\<open>random.choice(xs)\<close> on a non-empty list.\<close>

definition choice :: "'a list \<Rightarrow> nat \<Rightarrow> 'a" where
  "choice xs k = xs ! (k mod length xs)"

text \<open>\<open>random.randint(1, m)\<close> for \<open>m \<ge> 1\<close>.\<close>

definition randint1 :: "nat \<Rightarrow> nat \<Rightarrow> nat" where
  "randint1 m k = 1 + k mod m"

text \<open>\<open>random.sample(xs, n)\<close> for \<open>n \<le> len(xs)\<close>: \<open>n\<close> elements at distinct positions.\<close>

fun sample :: "'a list \<Rightarrow> nat \<Rightarrow> nat list \<Rightarrow> 'a list" where
  "sample xs 0 ks = []"
| "sample xs (Suc n) ks =
     (if xs = [] then []
      else (let i = (case ks of [] \<Rightarrow> 0 | k # _ \<Rightarrow> k mod length xs)
            in xs ! i # sample (take i xs @ drop (Suc i) xs) n (tl ks)))"

subsection \<open>One candidate (\<open>_create_outfit_from_categories\<close>)\<close>

text \<open>
  The outfit dictionary also carries a generated name, an identifier and a timestamp;
  no operation modelled here reads them, and they are left out of the record.
\<close>

record outfit =
  items :: "item list"
  occasion :: string

definition dress_strategy :: "draws \<Rightarrow> categorized \<Rightarrow> item list" where
  "dress_strategy d cz =
     [choice (dresses cz) (k_dress d)]
     @ (if shoes cz \<noteq> [] then [choice (shoes cz) (k_dress_shoes d)] else [])
     @ (if outerwear cz \<noteq> [] \<and> u_dress_outer d < 4 / 10
        then [choice (outerwear cz) (k_dress_outer d)] else [])
     @ (if accessories cz \<noteq> [] \<and> u_dress_acc d < 5 / 10
        then [choice (accessories cz) (k_dress_acc d)] else [])"

definition separates_strategy :: "draws \<Rightarrow> categorized \<Rightarrow> string \<Rightarrow> item list" where
  "separates_strategy d cz occ =
     (let base =
            (if tops cz \<noteq> [] then [choice (tops cz) (k_top d)] else [])
            @ (if bottoms cz \<noteq> [] then [choice (bottoms cz) (k_bottom d)] else [])
            @ (if shoes cz \<noteq> [] \<and> u_shoes d < 8 / 10
               then [choice (shoes cz) (k_shoes d)] else []);
          outerwear_chance =
            (if occ \<in> set [''formal'', ''business'', ''winter''] then 7 / 10 else 4 / 10 :: real);
          layered = base @ (if outerwear cz \<noteq> [] \<and> u_outer d < outerwear_chance
                            then [choice (outerwear cz) (k_outer d)] else []);
          used_item_ids = set (map item_key layered)
      in if accessories cz \<noteq> [] \<and> u_acc d < 6 / 10 then
           (let num_accessories = min 2 (length (accessories cz));
                available_accessories =
                  filter (\<lambda>acc. item_key acc \<notin> used_item_ids) (accessories cz)
            in if available_accessories \<noteq> [] then
                 layered @ sample available_accessories
                   (randint1 (min num_accessories (length available_accessories)) (k_num_acc d))
                   (k_sample d)
               else layered)
         else layered)"

text \<open>
  \<open>_generate_outfit_name\<close> takes \<open>category.split()[0]\<close> of each of the first three
  items whose category is not empty; on a category of white space only the split is
  empty and the index raises \<open>IndexError\<close>. The handler of
  \<open>_create_outfit_from_categories\<close> then returns \<open>None\<close>.
\<close>

definition outfit_name_raises :: "item list \<Rightarrow> bool" where
  "outfit_name_raises its =
     list_ex (\<lambda>it. category it \<noteq> [] \<and> list_all is_space (category it)) (take 3 its)"

definition create_outfit_from_categories ::
  "draws \<Rightarrow> categorized \<Rightarrow> string \<Rightarrow> outfit option" where
  "create_outfit_from_categories d cz occ =
     (let its = (if dresses cz \<noteq> [] \<and> u_dress d < 3 / 10 then dress_strategy d cz
                 else separates_strategy d cz occ)
      in if length its < 2 then None
         else if outfit_name_raises its then None
         else Some \<lparr>items = its, occasion = occ\<rparr>)"

subsection \<open>Validation (\<open>_is_outfit_valid\<close>)\<close>

definition has_dress :: "item list \<Rightarrow> bool" where
  "has_dress its = list_ex (\<lambda>it. lower (category it) = ''dresses'') its"

definition has_top :: "item list \<Rightarrow> bool" where
  "has_top its =
     list_ex (\<lambda>it. lower (category it) \<in>
                      set [''tops'', ''shirt'', ''blouse'', ''t-shirt'', ''sweater'']) its"

definition has_bottom :: "item list \<Rightarrow> bool" where
  "has_bottom its =
     list_ex (\<lambda>it. lower (category it) \<in>
                      set [''bottoms'', ''pants'', ''jeans'', ''skirt'', ''shorts'']) its"

definition is_outfit_valid :: "outfit \<Rightarrow> string \<Rightarrow> bool" where
  "is_outfit_valid out occ =
     (if length (items out) < 2 then False
      else if has_dress (items out) then True
      else has_top (items out) \<and> has_bottom (items out))"

text \<open>The de-duplication signature: the sorted tuple of item identifiers.\<close>

definition signature :: "item list \<Rightarrow> string list" where
  "signature its = sort (map item_key its)"

section \<open>Multi-factor scorer\<close>

text \<open>
  Scores are Python floats; they are modelled as real numbers with exact arithmetic.
  \<open>round(x, n)\<close> rounds to \<open>n\<close> decimals, a tie going to the even neighbour.
  A float sum can differ from the exact sum in its last bits, so a rounded score, or a
  comparison with a threshold, may differ from the code's when the exact value falls on
  a rounding tie or on the threshold. The theorems about scores state only what does not
  depend on this: exact defaults, and ranges.
\<close>

definition py_round :: "real \<Rightarrow> nat \<Rightarrow> real" where
  "py_round x n =
     (let y = x * 10 ^ n; f = \<lfloor>y\<rfloor>; d = y - of_int f
      in of_int (if d < 1 / 2 then f else if 1 / 2 < d then f + 1
                 else if even f then f else f + 1) / 10 ^ n)"

definition clamp01 :: "real \<Rightarrow> real" where
  "clamp01 score = min (max score 0) 1"

subsection \<open>Weather (\<open>_calculate_weather_score\<close>)\<close>

text \<open>
  The weather dictionary; \<open>None\<close> in an optional field is an absent key. A dictionary
  that is \<open>None\<close> or empty is falsy and is modelled by \<open>None\<close>.
\<close>

record weather =
  temperature :: "real option"
  condition :: string
  temp_category :: "string option"

definition get_temperature_category :: "real \<Rightarrow> string" where
  "get_temperature_category temp_c =
     (if temp_c < 0 then ''freezing''
      else if 0 \<le> temp_c \<and> temp_c < 10 then ''cold''
      else if 10 \<le> temp_c \<and> temp_c < 20 then ''cool''
      else if 20 \<le> temp_c \<and> temp_c < 30 then ''warm''
      else if 30 \<le> temp_c then ''hot''
      else ''moderate'')"

definition bonus :: "bool \<Rightarrow> real \<Rightarrow> real \<Rightarrow> real" where
  "bonus b amount score = (if b then score + amount else score)"

definition temperature_bonus :: "string \<Rightarrow> item \<Rightarrow> real \<Rightarrow> real" where
  "temperature_bonus cat it score =
     (let mat = lower (material it); category_type = lower (category it) in
      if cat \<in> set [''cold'', ''freezing''] then
        bonus (subcategory it \<in> set [''parka'', ''puffer'', ''winter coat'']) (2 / 10)
          (bonus (category_type \<in> set [''coat'', ''jacket'', ''sweater'', ''hoodie'']) (1 / 10)
            (bonus (any_word_in [''wool'', ''fleece'', ''thermal'', ''down'', ''cashmere'',
                                 ''knit''] mat) (15 / 100) score))
      else if cat = ''cool'' then
        bonus (category_type \<in> set [''jacket'', ''cardigan'', ''light sweater'']) (1 / 10)
          (bonus (any_word_in [''cotton'', ''denim'', ''light wool''] mat) (1 / 10) score)
      else if cat \<in> set [''hot'', ''warm''] then
        bonus (substr_in ''sleeveless'' (lower (item_name it))) (5 / 100)
          (bonus (category_type \<in> set [''t-shirt'', ''shorts'', ''dress'', ''tank'', ''skirt''])
                 (1 / 10)
            (bonus (any_word_in [''cotton'', ''linen'', ''breathable'', ''light''] mat)
                   (15 / 100) score))
      else score)"

definition condition_bonus :: "string \<Rightarrow> item \<Rightarrow> real \<Rightarrow> real" where
  "condition_bonus cond it score =
     (let mat = lower (material it); category_type = lower (category it);
          s1 = (if substr_in ''rain'' cond then
                  bonus (category_type = ''shoes'' \<and> substr_in ''waterproof'' mat) (2 / 10)
                    (bonus (substr_in ''waterproof'' mat \<or> substr_in ''rain'' category_type)
                           (25 / 100) score)
                else score);
          s2 = (if substr_in ''snow'' cond then
                  bonus (subcategory it \<in> set [''snow boots'', ''winter boots'']) (2 / 10)
                    (bonus (any_word_in [''waterproof'', ''insulated'', ''thermal''] mat)
                           (3 / 10) s1)
                else s1);
          s3 = (if substr_in ''wind'' cond then
                  bonus (category_type \<in> set [''jacket'', ''coat''] \<and> substr_in ''wind'' mat)
                        (15 / 100) s2
                else s2)
      in if substr_in ''sun'' cond \<or> substr_in ''clear'' cond then
           bonus (category_type \<in> set [''hat'', ''cap'']) (1 / 10) s3
         else s3)"

definition weather_penalty :: "string \<Rightarrow> item \<Rightarrow> real \<Rightarrow> real" where
  "weather_penalty cat it score =
     (let mat = lower (material it); category_type = lower (category it);
          s1 = (if cat \<in> set [''hot'', ''warm''] then
                  bonus (category_type \<in> set [''coat'', ''heavy jacket'']) (- (15 / 100))
                    (bonus (any_word_in [''wool'', ''fleece'', ''thermal''] mat) (- (1 / 10)) score)
                else score)
      in if cat \<in> set [''cold'', ''freezing''] then
           bonus (category_type \<in> set [''shorts'', ''tank'', ''sleeveless'']) (- (2 / 10))
             (bonus (any_word_in [''linen'', ''light cotton''] mat) (- (1 / 10)) s1)
         else s1)"

definition calculate_weather_score :: "item list \<Rightarrow> weather option \<Rightarrow> real" where
  "calculate_weather_score its weather_data =
     (case weather_data of
        None \<Rightarrow> 1 / 2
      | Some w \<Rightarrow>
          if its = [] then 1 / 2
          else
            (let cond = lower (condition w);
                 cat = (case temp_category w of None \<Rightarrow> ''moderate'' | Some c \<Rightarrow> c);
                 rewarded = foldl (\<lambda>score it. condition_bonus cond it
                                      (temperature_bonus cat it score)) (1 / 2) its;
                 penalised = foldl (\<lambda>score it. weather_penalty cat it score) rewarded its
             in clamp01 penalised))"

subsection \<open>Colour and occasion\<close>

definition calculate_color_score :: "item list \<Rightarrow> real" where
  "calculate_color_score its =
     (let colors = map (\<lambda>it. lower (color it)) (filter (\<lambda>it. color it \<noteq> []) its) in
      if its = [] \<or> colors = [] then 1 / 2
      else
        (let neutral_colors = [''black'', ''white'', ''gray'', ''navy'', ''beige'', ''brown''];
             bright_colors = [''red'', ''yellow'', ''orange'', ''pink'', ''purple''];
             s1 = bonus (length (remdups colors) = 1) (2 / 10) (1 / 2);
             s2 = bonus (list_ex (\<lambda>c. c \<in> set neutral_colors) (take 2 colors)) (1 / 10) s1;
             bright_count = length (filter (\<lambda>c. c \<in> set bright_colors) colors)
         in clamp01 (bonus (2 < bright_count) (- (1 / 10)) s2)))"

definition formality_level :: "string \<Rightarrow> real" where
  "formality_level f =
     (if f = ''formal'' then 9 / 10 else if f = ''business'' then 7 / 10
      else if f = ''casual'' then 5 / 10 else if f = ''sport'' then 3 / 10 else 5 / 10)"

definition occasion_target :: "string \<Rightarrow> real" where
  "occasion_target occ =
     (if occ = ''formal'' then 8 / 10 else if occ = ''business'' then 7 / 10
      else if occ = ''casual'' then 5 / 10 else if occ = ''sport'' then 3 / 10
      else if occ = ''party'' then 6 / 10 else if occ = ''beach'' then 4 / 10
      else if occ = ''date'' then 6 / 10 else 5 / 10)"

definition calculate_occasion_score :: "item list \<Rightarrow> string \<Rightarrow> real" where
  "calculate_occasion_score its occ =
     (if its = [] then 1 / 2
      else
        (let formalities = map (\<lambda>it. formality_level (formality it)) its;
             avg_formality = sum_list formalities / real (length formalities);
             target = occasion_target (lower occ)
         in clamp01 (1 - \<bar>avg_formality - target\<bar>)))"

subsection \<open>\<open>score_outfit\<close>\<close>

record score_card =
  style_score :: real
  color_score :: real
  occasion_score :: real
  weather_score :: real
  combined_score :: real

record analysis =
  color_coordination :: string
  style_coherence :: string
  occasion_appropriateness :: string

text \<open>
  The scored outfit: the outfit's keys, the nested \<open>scores\<close> and \<open>analysis\<close>
  dictionaries, the flags, and the two top-level keys \<open>weather_score\<close> and
  \<open>combined_score\<close> that \<open>generate_suggestions\<close> adds when it has weather data.
\<close>

record scored_outfit =
  so_items :: "item list"
  so_occasion :: string
  scores :: score_card
  is_weather_appropriate :: bool
  analysis_of :: analysis
  is_mock :: bool
  top_weather_score :: "real option"
  top_combined_score :: "real option"

text \<open>
  \<open>score_outfit\<close>. The style score is the draw \<open>random.uniform(0.6, 0.95)\<close>, passed in.
  The weather score starts at \<open>1.0\<close> and is computed only when weather data is given.
\<close>

definition score_outfit :: "real \<Rightarrow> outfit \<Rightarrow> string \<Rightarrow> weather option \<Rightarrow> scored_outfit" where
  "score_outfit style out occ weather_data =
     (let its = items out;
          color_s = calculate_color_score its;
          occasion_s = calculate_occasion_score its occ;
          weather_s = (case weather_data of None \<Rightarrow> 1
                       | Some w \<Rightarrow> calculate_weather_score its weather_data);
          combined = style * (3 / 10) + color_s * (25 / 100) + occasion_s * (25 / 100)
                     + weather_s * (2 / 10)
      in \<lparr>so_items = its, so_occasion = occasion out,
          scores = \<lparr>style_score = py_round style 2, color_score = py_round color_s 2,
                    occasion_score = py_round occasion_s 2,
                    weather_score = py_round weather_s 2,
                    combined_score = py_round combined 2\<rparr>,
          is_weather_appropriate = (6 / 10 \<le> weather_s),
          analysis_of =
            \<lparr>color_coordination = (if 7 / 10 < color_s then ''Good'' else ''Needs improvement''),
             style_coherence = (if 8 / 10 < style then ''Excellent'' else ''Good''),
             occasion_appropriateness =
               (if 8 / 10 < occasion_s then ''Perfect'' else ''Appropriate'')\<rparr>,
          is_mock = False, top_weather_score = None, top_combined_score = None\<rparr>)"

section \<open>\<open>generate_suggestions\<close>\<close>

subsection \<open>Mock outfits (\<open>_get_mock_outfits\<close>)\<close>

definition mock_item :: "string \<Rightarrow> string \<Rightarrow> string \<Rightarrow> string \<Rightarrow> item" where
  "mock_item i name cat col =
     \<lparr>item_id = i, item_oid = None, item_type = None, item_name = name, description = [], category = cat,
      subcategory = [], season = [], formality = [], color = col, material = [],
      embedding = None\<rparr>"

definition mock_items :: "item list" where
  "mock_items =
     [mock_item ''mock_1'' ''White Cotton T-Shirt'' ''tops'' ''white'',
      mock_item ''mock_2'' ''Blue Denim Jeans'' ''bottoms'' ''blue'',
      mock_item ''mock_3'' ''Black Leather Jacket'' ''outerwear'' ''black'',
      mock_item ''mock_4'' ''White Sneakers'' ''shoes'' ''white'',
      mock_item ''mock_5'' ''Beige Chinos'' ''bottoms'' ''brown'',
      mock_item ''mock_6'' ''Gray Hoodie'' ''tops'' ''gray'']"

definition mock_outfit :: "(nat \<Rightarrow> draws) \<Rightarrow> string \<Rightarrow> nat \<Rightarrow> scored_outfit" where
  "mock_outfit rnd occ i =
     (let its = (if i = 0 then [mock_items ! 0, mock_items ! 1, mock_items ! 3]
                 else if i = 1 then [mock_items ! 0, mock_items ! 4, mock_items ! 3]
                 else [mock_items ! 5, mock_items ! 1, mock_items ! 2, mock_items ! 3]);
          style_s = py_round (u_mock_style (rnd i)) 2;
          color_s = py_round (u_mock_color (rnd i)) 2;
          occasion_s = py_round (u_mock_occasion (rnd i)) 2;
          weather_s = py_round (u_mock_weather (rnd i)) 2;
          combined = py_round ((style_s + color_s + occasion_s + weather_s) / 4) 2
      in \<lparr>so_items = its, so_occasion = occ,
          scores = \<lparr>style_score = style_s, color_score = color_s, occasion_score = occasion_s,
                    weather_score = weather_s, combined_score = combined\<rparr>,
          is_weather_appropriate = True,
          analysis_of = \<lparr>color_coordination = ''Good'', style_coherence = ''Excellent'',
                         occasion_appropriateness = ''Perfect''\<rparr>,
          is_mock = True, top_weather_score = None, top_combined_score = None\<rparr>)"

text \<open>\<open>for i in range(min(count, 3))\<close>; a negative bound gives the empty range.\<close>

definition get_mock_outfits :: "(nat \<Rightarrow> draws) \<Rightarrow> string \<Rightarrow> int \<Rightarrow> scored_outfit list" where
  "get_mock_outfits rnd occ count = map (mock_outfit rnd occ) [0 ..< nat (min count 3)]"

subsection \<open>The generation loop\<close>

text \<open>
  One pass through the body of the \<open>while\<close> loop, on the accumulated outfits and the
  set of seen signatures. Every path through the body adds one to \<open>attempts\<close>, which
  the loop function below does.
\<close>

definition add_weather :: "item list \<Rightarrow> weather option \<Rightarrow> scored_outfit \<Rightarrow> scored_outfit" where
  "add_weather its weather_data scored =
     (case weather_data of
        None \<Rightarrow> scored
      | Some w \<Rightarrow>
          (let weather_s = calculate_weather_score its weather_data
           in scored\<lparr>top_weather_score := Some weather_s,
                     top_combined_score :=
                       Some (7 / 10 * (3 / 10) + 7 / 10 * (25 / 100) + 7 / 10 * (25 / 100)
                             + weather_s * (2 / 10)),
                     is_weather_appropriate := (6 / 10 \<le> weather_s)\<rparr>))"

definition attempt ::
  "draws \<Rightarrow> categorized \<Rightarrow> string \<Rightarrow> weather option \<Rightarrow>
   scored_outfit list \<times> string list set \<Rightarrow> scored_outfit list \<times> string list set" where
  "attempt d cz occ weather_data st =
     (case create_outfit_from_categories d cz occ of
        None \<Rightarrow> st
      | Some out \<Rightarrow>
          if is_outfit_valid out occ then
            (let item_ids = signature (items out) in
             if item_ids \<in> snd st then st
             else (fst st @ [add_weather (items out) weather_data
                               (score_outfit (u_style d) out occ weather_data)],
                   insert item_ids (snd st)))
          else st)"

function generation_loop ::
  "(nat \<Rightarrow> draws) \<Rightarrow> categorized \<Rightarrow> string \<Rightarrow> weather option \<Rightarrow> int \<Rightarrow>
   scored_outfit list \<times> string list set \<Rightarrow> nat \<Rightarrow>
   (scored_outfit list \<times> string list set) \<times> nat" where
  "generation_loop rnd cz occ weather_data count st attempts =
     (if int (length (fst st)) < count \<and> int attempts < count * 20
      then generation_loop rnd cz occ weather_data count
             (attempt (rnd attempts) cz occ weather_data st) (Suc attempts)
      else (st, attempts))"
  by pat_completeness auto
termination
  by (relation "measure (\<lambda>(rnd, cz, occ, weather_data, count, st, attempts).
                            nat (count * 20) - attempts)") auto

declare generation_loop.simps [simp del]

subsection \<open>The entry point\<close>

text \<open>\<open>xs[:k]\<close>: a negative \<open>k\<close> drops the last \<open>-k\<close> elements.\<close>

definition py_prefix :: "'a list \<Rightarrow> int \<Rightarrow> 'a list" where
  "py_prefix xs k = (if 0 \<le> k then take (nat k) xs else take (nat (int (length xs) + k)) xs)"

text \<open>\<open>outfits.sort(key=..., reverse=True)\<close>: a stable sort, largest key first.\<close>

definition sort_desc :: "('a \<Rightarrow> real) \<Rightarrow> 'a list \<Rightarrow> 'a list" where
  "sort_desc key xs = sort_key (\<lambda>x. - key x) xs"

definition top_key :: "scored_outfit \<Rightarrow> real" where
  "top_key x = (case top_combined_score x of None \<Rightarrow> 0 | Some v \<Rightarrow> v)"

text \<open>
  The weather used by a run: when a location is given and no weather data, it is fetched
  from the weather service (an external collaborator, the parameter
  \<open>current_weather\<close>) and tagged with its temperature category.
\<close>

definition resolve_weather ::
  "(string \<Rightarrow> weather option) \<Rightarrow> string option \<Rightarrow> weather option \<Rightarrow> weather option" where
  "resolve_weather current_weather location weather_data =
     (case location of
        None \<Rightarrow> weather_data
      | Some loc \<Rightarrow>
          if loc \<noteq> [] \<and> weather_data = None then
            (case current_weather loc of
               None \<Rightarrow> None
             | Some w \<Rightarrow>
                 Some (w\<lparr>temp_category := Some (get_temperature_category
                           (case temperature w of None \<Rightarrow> 20 | Some t \<Rightarrow> t))\<rparr>))
          else weather_data)"

text \<open>
  The run on a non-empty wardrobe: the outfits accepted by the loop, in the order of
  acceptance, and the number of attempts made.
\<close>

definition generation_run ::
  "(nat \<Rightarrow> draws) \<Rightarrow> item list \<Rightarrow> string \<Rightarrow> int \<Rightarrow> weather option \<Rightarrow>
   scored_outfit list \<times> nat" where
  "generation_run rnd wardrobe occ count weather_data =
     (let r = generation_loop rnd (categorize_items wardrobe) occ weather_data count ([], {}) 0
      in (fst (fst r), snd r))"

text \<open>
  \<open>generate_suggestions\<close>, on the rows the document store returns for the user. An
  empty wardrobe yields the mock outfits.
\<close>

definition generate_suggestions ::
  "(nat \<Rightarrow> draws) \<Rightarrow> (string \<Rightarrow> weather option) \<Rightarrow> item list \<Rightarrow> string \<Rightarrow> int \<Rightarrow>
   string option \<Rightarrow> weather option \<Rightarrow> scored_outfit list" where
  "generate_suggestions rnd current_weather rows occ count location weather_data =
     (let wardrobe = get_user_wardrobe rows in
      if wardrobe = [] then get_mock_outfits rnd occ count
      else
        (let weather_data' = resolve_weather current_weather location weather_data;
             outfits = fst (generation_run rnd wardrobe occ count weather_data')
         in py_prefix (sort_desc top_key outfits) count))"

section \<open>Similarity index\<close>

text \<open>
  Embeddings are NumPy vectors of floats, modelled as lists of reals with exact
  arithmetic: a similarity here is the exact value of which the code computes a float
  approximation. \<open>np.dot\<close> of two vectors of different lengths raises
  \<open>ValueError\<close>.
\<close>

datatype error = ValueError

definition dot_product :: "real list \<Rightarrow> real list \<Rightarrow> real" where
  "dot_product xs ys = sum_list (map (\<lambda>(x, y). x * y) (zip xs ys))"

definition np_dot :: "real list \<Rightarrow> real list \<Rightarrow> error + real" where
  "np_dot xs ys = (if length xs = length ys then Inr (dot_product xs ys) else Inl ValueError)"

definition np_norm :: "real list \<Rightarrow> real" where
  "np_norm xs = sqrt (sum_list (map (\<lambda>x. x * x) xs))"

text \<open>A returned item: the item's own keys and the key \<open>similarity_score\<close>.\<close>

record scored_item =
  si_item :: item
  similarity_score :: real

subsection \<open>\<open>FashionAIService.find_similar_items\<close>\<close>

text \<open>
  The loop over the wardrobe. The similarity is the plain dot product (the embeddings
  are taken to be normalised already); an exception raised by \<open>np.dot\<close> leaves the
  loop.
\<close>

fun fashion_scan :: "real list \<Rightarrow> real \<Rightarrow> item list \<Rightarrow> error + scored_item list" where
  "fashion_scan q min_similarity [] = Inr []"
| "fashion_scan q min_similarity (it # its) =
     (case embedding it of
        None \<Rightarrow> fashion_scan q min_similarity its
      | Some e \<Rightarrow>
          (case np_dot q e of
             Inl err \<Rightarrow> Inl err
           | Inr similarity \<Rightarrow>
               (case fashion_scan q min_similarity its of
                  Inl err \<Rightarrow> Inl err
                | Inr rest \<Rightarrow>
                    Inr (if min_similarity \<le> similarity
                         then \<lparr>si_item = it, similarity_score = py_round similarity 3\<rparr> # rest
                         else rest))))"

text \<open>
  The whole call. \<open>Inr\<close> is a returned list, \<open>Inl\<close> an exception reaching the
  caller; the handler \<open>except Exception: return []\<close> turns every exception of the
  body into the empty list.
\<close>

definition fashion_find_similar_items ::
  "real list \<Rightarrow> item list \<Rightarrow> int \<Rightarrow> real \<Rightarrow> error + scored_item list" where
  "fashion_find_similar_items query_embedding wardrobe_items top_k min_similarity =
     (case fashion_scan query_embedding min_similarity wardrobe_items of
        Inl err \<Rightarrow> Inr []
      | Inr similarities \<Rightarrow> Inr (py_prefix (sort_desc similarity_score similarities) top_k))"

subsection \<open>\<open>CLIPService.find_similar_items\<close>\<close>

text \<open>
  \<open>compute_similarity\<close> divides both vectors by their norms and takes the dot product.
  Its own handler returns \<open>0.0\<close> on any exception, here the \<open>ValueError\<close> of
  \<open>np.dot\<close>. Dividing a non-empty vector of norm zero yields NaNs (NumPy warns and does
  not raise), so the similarity is NaN: the result \<open>None\<close>. The dot product of two empty
  vectors is \<open>0.0\<close>.
\<close>

definition normalise :: "real list \<Rightarrow> real list" where
  "normalise xs = map (\<lambda>x. x / np_norm xs) xs"

definition compute_similarity :: "real list \<Rightarrow> real list \<Rightarrow> real option" where
  "compute_similarity embedding1 embedding2 =
     (if embedding1 \<noteq> [] \<and> embedding2 \<noteq> [] \<and> length embedding1 = length embedding2
         \<and> (np_norm embedding1 = 0 \<or> np_norm embedding2 = 0)
      then None
      else (case np_dot (normalise embedding1) (normalise embedding2) of
              Inl err \<Rightarrow> Some 0
            | Inr similarity \<Rightarrow> Some similarity))"

text \<open>The loop; a comparison with NaN is false, so a NaN similarity is skipped.\<close>

fun clip_scan :: "real list \<Rightarrow> real \<Rightarrow> item list \<Rightarrow> scored_item list" where
  "clip_scan q min_similarity [] = []"
| "clip_scan q min_similarity (it # its) =
     (case embedding it of
        None \<Rightarrow> clip_scan q min_similarity its
      | Some e \<Rightarrow>
          (case compute_similarity q e of
             None \<Rightarrow> clip_scan q min_similarity its
           | Some similarity \<Rightarrow>
               if min_similarity \<le> similarity
               then \<lparr>si_item = it, similarity_score = py_round similarity 3\<rparr>
                      # clip_scan q min_similarity its
               else clip_scan q min_similarity its))"

definition clip_find_similar_items ::
  "real list \<Rightarrow> item list \<Rightarrow> int \<Rightarrow> real \<Rightarrow> error + scored_item list" where
  "clip_find_similar_items query_embedding wardrobe_items top_k min_similarity =
     Inr (py_prefix (sort_desc similarity_score
            (clip_scan query_embedding min_similarity wardrobe_items)) top_k)"

section \<open>History preference miner (\<open>PersonalizedAIService._analyze_user_history\<close>)\<close>

text \<open>\<open>str.strip()\<close> removes leading and trailing white space.\<close>

definition strip :: "string \<Rightarrow> string" where
  "strip s = rev (dropWhile is_space (rev (dropWhile is_space s)))"

text \<open>\<open>str(x).lower().strip()\<close>\<close>

definition clean :: "string \<Rightarrow> string" where
  "clean s = strip (lower s)"

text \<open>\<open>sep.join(parts)\<close>\<close>

fun join :: "string \<Rightarrow> string list \<Rightarrow> string" where
  "join sep [] = []"
| "join sep [p] = p"
| "join sep (p # q # ps) = p @ sep @ join sep (q # ps)"

text \<open>
  A history entry. Its item snapshots are read through the keys \<open>color\<close>,
  \<open>category\<close> and \<open>id\<close>, and are modelled by the item record. The rating is the
  optional integer of the \<open>OutfitHistory\<close> model.
\<close>

text \<open>
  The key \<open>occasion\<close> of an entry: absent, stored as \<open>None\<close>, or a string.
  \<open>outfit.get('occasion', 'casual')\<close> is \<open>'casual'\<close> for the absent key only; a
  stored \<open>None\<close> is counted under the dictionary key \<open>None\<close>.
\<close>

datatype stored_occasion = Missing | Null | Occasion string

definition occasion_key :: "stored_occasion \<Rightarrow> string option" where
  "occasion_key oc =
     (case oc of Missing \<Rightarrow> Some ''casual'' | Null \<Rightarrow> None | Occasion name \<Rightarrow> Some name)"

record history_entry =
  outfit_items :: "item list"
  is_favorite :: bool
  rating :: "int option"
  entry_occasion :: stored_occasion

text \<open>
  A \<open>defaultdict\<close> keeps its keys in insertion order: an association list in which
  \<open>d[k] = f(d[k])\<close> updates the entry of \<open>k\<close> in place, or appends \<open>(k, f(default))\<close>.
\<close>

fun upd :: "'k \<Rightarrow> ('v \<Rightarrow> 'v) \<Rightarrow> 'v \<Rightarrow> ('k \<times> 'v) list \<Rightarrow> ('k \<times> 'v) list" where
  "upd k f d [] = [(k, f d)]"
| "upd k f d ((k', v) # m) = (if k' = k then (k', f v) # m else (k', v) # upd k f d m)"

record mining =
  color_scores :: "(string \<times> real) list"
  category_combinations :: "(string \<times> nat) list"
  item_wear_count :: "(string \<times> nat) list"
  occasion_count :: "(string option \<times> nat) list"
  category_wear_frequency :: "(string \<times> nat) list"
  color_ratings :: "(string \<times> int list) list"

definition no_mining :: mining where
  "no_mining = \<lparr>color_scores = [], category_combinations = [], item_wear_count = [],
                occasion_count = [], category_wear_frequency = [], color_ratings = []\<rparr>"

text \<open>\<open>5.0 if is_favorite else (float(rating) if rating else 3.0)\<close>; a rating of 0 is falsy.\<close>

definition rated :: "int option \<Rightarrow> bool" where
  "rated r = (case r of None \<Rightarrow> False | Some v \<Rightarrow> v \<noteq> 0)"

definition outfit_score :: "history_entry \<Rightarrow> real" where
  "outfit_score e =
     (if is_favorite e then 5
      else (case rating e of None \<Rightarrow> 3 | Some r \<Rightarrow> if r \<noteq> 0 then real_of_int r else 3))"

definition counted_color :: "string \<Rightarrow> bool" where
  "counted_color c = (c \<noteq> [] \<and> c \<notin> set ['''', ''none'', ''unknown''])"

text \<open>The body of the loop over the items of one entry.\<close>

definition mine_item :: "real \<Rightarrow> int option \<Rightarrow> mining \<Rightarrow> item \<Rightarrow> mining" where
  "mine_item score r s it =
     (let col = clean (color it); cat = clean (category it); iid = item_id it;
          s1 = (if counted_color col then
                  (let s' = s\<lparr>color_scores := upd col (\<lambda>v. v + score) 0 (color_scores s)\<rparr>
                   in (case r of
                         None \<Rightarrow> s'
                       | Some v \<Rightarrow>
                           if v \<noteq> 0
                           then s'\<lparr>color_ratings := upd col (\<lambda>l. l @ [v]) [] (color_ratings s')\<rparr>
                           else s'))
                else s);
          s2 = (if cat \<noteq> []
                then s1\<lparr>category_wear_frequency := upd cat Suc 0 (category_wear_frequency s1)\<rparr>
                else s1)
      in if iid \<noteq> [] then s2\<lparr>item_wear_count := upd iid Suc 0 (item_wear_count s2)\<rparr> else s2)"

text \<open>The body of the loop over the history; an entry without items is skipped.\<close>

definition mine_entry :: "mining \<Rightarrow> history_entry \<Rightarrow> mining" where
  "mine_entry s e =
     (if outfit_items e = [] then s
      else
        (let occ = occasion_key (entry_occasion e);
             s0 = s\<lparr>occasion_count := upd occ Suc 0 (occasion_count s)\<rparr>;
             s1 = foldl (mine_item (outfit_score e) (rating e)) s0 (outfit_items e);
             outfit_categories =
               filter (\<lambda>c. c \<noteq> []) (map (\<lambda>it. clean (category it)) (outfit_items e))
         in if 2 \<le> length outfit_categories
            then s1\<lparr>category_combinations :=
                      upd (join ''+'' (sort (remdups outfit_categories))) Suc 0
                        (category_combinations s1)\<rparr>
            else s1))"

definition mine_history :: "history_entry list \<Rightarrow> mining" where
  "mine_history outfit_history = foldl mine_entry no_mining outfit_history"

record preferences =
  favorite_colors :: "string list"
  preferred_combinations :: "string list"
  most_worn_items :: "(string \<times> nat) list"
  occasion_preferences :: "(string option \<times> real) list"
  pref_category_wear_frequency :: "(string \<times> nat) list"
  most_worn_categories :: "(string \<times> nat) list"
  average_ratings :: "(string \<times> real) list"
  pref_color_ratings :: "(string \<times> int list) list"

definition no_preferences :: preferences where
  "no_preferences =
     \<lparr>favorite_colors = [], preferred_combinations = [], most_worn_items = [],
      occasion_preferences = [], pref_category_wear_frequency = [], most_worn_categories = [],
      average_ratings = [], pref_color_ratings = []\<rparr>"

definition by_count :: "string \<times> nat \<Rightarrow> real" where
  "by_count x = real (snd x)"

definition analyze_user_history :: "history_entry list \<Rightarrow> preferences" where
  "analyze_user_history outfit_history =
     (if outfit_history = [] then no_preferences
      else
        (let s = mine_history outfit_history;
             total_occasions = sum_list (map snd (occasion_count s))
         in \<lparr>favorite_colors = map fst (take 10 (sort_desc snd (color_scores s))),
             preferred_combinations =
               map fst (take 5 (sort_desc by_count (category_combinations s))),
             most_worn_items = take 10 (sort_desc by_count (item_wear_count s)),
             occasion_preferences =
               (if 0 < total_occasions
                then map (\<lambda>(oc, n). (oc, real n / real total_occasions)) (occasion_count s)
                else []),
             pref_category_wear_frequency = category_wear_frequency s,
             most_worn_categories = take 5 (sort_desc by_count (category_wear_frequency s)),
             average_ratings =
               map (\<lambda>(c, rs). (c, real_of_int (sum_list rs) / real (length rs)))
                 (filter (\<lambda>(c, rs). rs \<noteq> []) (color_ratings s)),
             pref_color_ratings = color_ratings s\<rparr>))"

section \<open>Personalized re-ranker (\<open>PersonalizedAIService\<close>)\<close>

subsection \<open>Bucketing (\<open>PersonalizedAIService._categorize_items\<close>)\<close>

text \<open>
  This service has its own keyword lists, and an item that matches none goes to the
  bucket named by its category if there is one, else to \<open>tops\<close>. It logs no warning.
\<close>

definition p_categorize_item :: "categorized \<Rightarrow> item \<Rightarrow> categorized" where
  "p_categorize_item c it =
     (let cat = lower (category it); name = lower (item_name it) in
      if word_hits [''shirt'', ''t-shirt'', ''blouse'', ''top'', ''sweater'', ''hoodie'',
                    ''jersey'', ''polo'', ''tank''] cat name
        then c\<lparr>tops := tops c @ [it]\<rparr>
      else if word_hits [''jeans'', ''pants'', ''trousers'', ''skirt'', ''shorts'', ''leggings'',
                         ''chinos''] cat name
        then c\<lparr>bottoms := bottoms c @ [it]\<rparr>
      else if word_hits [''dress'', ''jumpsuit'', ''romper'', ''gown''] cat name
        then c\<lparr>dresses := dresses c @ [it]\<rparr>
      else if word_hits [''jacket'', ''coat'', ''blazer'', ''cardigan'', ''vest'', ''parka'',
                         ''outerwear''] cat name
        then c\<lparr>outerwear := outerwear c @ [it]\<rparr>
      else if word_hits [''shoes'', ''sneakers'', ''boots'', ''sandals'', ''heels'', ''flats'',
                         ''loafers''] cat name
        then c\<lparr>shoes := shoes c @ [it]\<rparr>
      else if word_hits [''belt'', ''scarf'', ''hat'', ''bag'', ''wallet'', ''watch'', ''jewelry'',
                         ''accessories''] cat name
        then c\<lparr>accessories := accessories c @ [it]\<rparr>
      else if cat = ''tops'' then c\<lparr>tops := tops c @ [it]\<rparr>
      else if cat = ''bottoms'' then c\<lparr>bottoms := bottoms c @ [it]\<rparr>
      else if cat = ''dresses'' then c\<lparr>dresses := dresses c @ [it]\<rparr>
      else if cat = ''outerwear'' then c\<lparr>outerwear := outerwear c @ [it]\<rparr>
      else if cat = ''shoes'' then c\<lparr>shoes := shoes c @ [it]\<rparr>
      else if cat = ''accessories'' then c\<lparr>accessories := accessories c @ [it]\<rparr>
      else c\<lparr>tops := tops c @ [it]\<rparr>)"

definition p_categorize_items :: "item list \<Rightarrow> categorized" where
  "p_categorize_items its = foldl p_categorize_item no_buckets its"

subsection \<open>Base score (\<open>_calculate_style_score\<close>)\<close>

definition occasion_keywords :: "string \<Rightarrow> string list option" where
  "occasion_keywords occ =
     (if occ = ''formal'' then Some [''suit'', ''dress'', ''blazer'', ''tie'', ''heels'']
      else if occ = ''casual'' then Some [''jeans'', ''t-shirt'', ''sneakers'', ''shorts'']
      else if occ = ''business'' then Some [''trousers'', ''shirt'', ''blazer'', ''slacks'']
      else None)"

definition calculate_style_score :: "item list \<Rightarrow> weather option \<Rightarrow> string \<Rightarrow> real" where
  "calculate_style_score its weather_data occ =
     (let colors = map (\<lambda>it. lower (color it)) (filter (\<lambda>it. color it \<noteq> []) its);
          s1 = bonus (colors \<noteq> [] \<and> length (remdups colors) \<le> 2) 20 50;
          s2 = (case weather_data of
                  None \<Rightarrow> s1
                | Some w \<Rightarrow>
                    (let temp = (case temperature w of None \<Rightarrow> 20 | Some t \<Rightarrow> t);
                         materials = map (\<lambda>it. lower (material it))
                                       (filter (\<lambda>it. material it \<noteq> []) its)
                     in if temp < 10 then
                          bonus (list_ex (\<lambda>m. m \<in> set [''wool'', ''fleece'', ''down'', ''thermal'',
                                                       ''knit'']) materials) 15 s1
                        else if 25 < temp then
                          bonus (list_ex (\<lambda>m. m \<in> set [''cotton'', ''linen'', ''breathable'',
                                                       ''light'']) materials) 15 s1
                        else s1));
          s3 = (case occasion_keywords (lower occ) of
                  None \<Rightarrow> s2
                | Some kws \<Rightarrow>
                    foldl (\<lambda>score it. bonus (any_word_in kws (lower (item_name it))) 10 score)
                      s2 its)
      in min s3 100)"

subsection \<open>Candidates (\<open>_create_outfit_combinations\<close>)\<close>

text \<open>
  A candidate of this service: its items, its type, its scores and the flag
  \<open>history_based\<close>. Keys that are absent until the re-ranker sets them are options.
  The generated reasoning text is not modelled.
\<close>

record candidate =
  c_items :: "item list"
  c_type :: string
  c_style_score :: real
  personalized_score :: "real option"
  history_based :: "bool option"
  c_combined_score :: "real option"

definition make_candidate ::
  "weather option \<Rightarrow> string \<Rightarrow> string \<Rightarrow> item list \<Rightarrow> candidate" where
  "make_candidate weather_data occ ty its =
     \<lparr>c_items = its, c_type = ty, c_style_score = calculate_style_score its weather_data occ,
      personalized_score = None, history_based = None, c_combined_score = None\<rparr>"

definition create_outfit_combinations ::
  "categorized \<Rightarrow> weather option \<Rightarrow> string \<Rightarrow> candidate list" where
  "create_outfit_combinations cz weather_data occ =
     (let separates =
            (if tops cz \<noteq> [] \<and> bottoms cz \<noteq> [] \<and> shoes cz \<noteq> [] then
               concat (map (\<lambda>top. concat (map (\<lambda>bottom.
                  map (\<lambda>shoe. make_candidate weather_data occ ''separates'' [top, bottom, shoe])
                    (take 3 (shoes cz))) (take 5 (bottoms cz)))) (take 5 (tops cz)))
             else []);
          dress_outfits =
            (if dresses cz \<noteq> [] \<and> shoes cz \<noteq> [] then
               concat (map (\<lambda>dress.
                  map (\<lambda>shoe. make_candidate weather_data occ ''dress_outfit'' [dress, shoe])
                    (take 3 (shoes cz))) (take 5 (dresses cz)))
             else [])
      in sort_desc c_style_score (separates @ dress_outfits))"

subsection \<open>Personalized score (\<open>_calculate_personalized_score\<close>)\<close>

definition clamp100 :: "real \<Rightarrow> real" where
  "clamp100 score = min (max score 0) 100"

text \<open>The score accumulated by the five factors, before it is clamped.\<close>

definition personal_points :: "item list \<Rightarrow> preferences \<Rightarrow> string \<Rightarrow> real" where
  "personal_points its prefs occ =
     (let outfit_colors = map (\<lambda>it. lower (color it)) (filter (\<lambda>it. color it \<noteq> []) its);
          s1 = (if favorite_colors prefs \<noteq> [] \<and> outfit_colors \<noteq> [] then
                  50 + real (length (filter (\<lambda>c. c \<in> set (favorite_colors prefs))
                                       outfit_colors))
                       / real (length outfit_colors) * 30
                else 50);
          outfit_categories =
            map (\<lambda>it. lower (category it)) (filter (\<lambda>it. category it \<noteq> []) its);
          s2 = bonus (preferred_combinations prefs \<noteq> [] \<and> 2 \<le> length outfit_categories
                      \<and> join ''+'' (sort (remdups outfit_categories))
                           \<in> set (preferred_combinations prefs)) 20 s1;
          most_worn = set (map fst (most_worn_items prefs));
          worn_items_in_outfit =
            length (filter (\<lambda>it. (case item_oid it of None \<Rightarrow> [] | Some oid \<Rightarrow> oid)
                                     \<in> most_worn \<or> item_id it \<in> most_worn) its);
          s3 = (if most_worn_items prefs \<noteq> []
                then s2 + real worn_items_in_outfit / real (length its) * 20 else s2);
          s4 = (case map_of (occasion_preferences prefs) (Some (lower occ)) of
                  None \<Rightarrow> s3
                | Some occasion_weight \<Rightarrow> s3 + occasion_weight * 15);
          color_rating_list =
            concat (map (\<lambda>c. case map_of (average_ratings prefs) c of
                                None \<Rightarrow> [] | Some avg \<Rightarrow> [avg]) outfit_colors)
      in if average_ratings prefs \<noteq> [] \<and> color_rating_list \<noteq> [] then
           s4 + (sum_list color_rating_list / real (length color_rating_list) - 1) / 4 * 15
         else s4)"

definition calculate_personalized_score ::
  "candidate \<Rightarrow> preferences option \<Rightarrow> string \<Rightarrow> real" where
  "calculate_personalized_score out user_preferences occ =
     (case user_preferences of
        None \<Rightarrow> 50
      | Some prefs \<Rightarrow>
          if c_items out = [] then 50
          else clamp100 (personal_points (c_items out) prefs occ))"

subsection \<open>Re-ranking (\<open>_generate_recommendations\<close>)\<close>

definition has_favorites :: "preferences option \<Rightarrow> bool" where
  "has_favorites user_preferences =
     (case user_preferences of None \<Rightarrow> False | Some prefs \<Rightarrow> 0 < length (favorite_colors prefs))"

text \<open>The body of the loop over the candidates when the profile has favourite colours.\<close>

definition personalize :: "preferences option \<Rightarrow> string \<Rightarrow> candidate \<Rightarrow> candidate" where
  "personalize user_preferences occ out =
     (let p = calculate_personalized_score out user_preferences occ;
          base_score = c_style_score out;
          combined = base_score * (4 / 10) + p * (6 / 10)
      in out\<lparr>personalized_score := Some p, history_based := Some True,
             c_combined_score := Some combined, c_style_score := combined\<rparr>)"

text \<open>\<open>x.get('combined_score', x.get('style_score', 0))\<close>\<close>

definition rank_key :: "candidate \<Rightarrow> real" where
  "rank_key x = (case c_combined_score x of None \<Rightarrow> c_style_score x | Some v \<Rightarrow> v)"

record recommendations =
  rec_outfits :: "candidate list"
  total_combinations :: nat
  rec_occasion :: string
  weather_considered :: bool
  personalization_active :: bool

text \<open>The filter applied when specific items are requested.\<close>

definition filter_specific :: "string list \<Rightarrow> item list \<Rightarrow> item list" where
  "filter_specific specific_items wardrobe_items =
     (if specific_items \<noteq> [] then
        filter (\<lambda>it. (case item_oid it of None \<Rightarrow> ''None'' | Some oid \<Rightarrow> oid)
                        \<in> set specific_items
                      \<or> (case item_type it of None \<Rightarrow> False
                          | Some ty \<Rightarrow> ty \<in> set specific_items)) wardrobe_items
      else wardrobe_items)"

text \<open>The scoring block: personalize and re-sort, or flag every candidate as not history based.\<close>

definition rank_candidates :: "preferences option \<Rightarrow> string \<Rightarrow> candidate list \<Rightarrow> candidate list" where
  "rank_candidates user_preferences occ outfits =
     (if has_favorites user_preferences
      then sort_desc rank_key (map (personalize user_preferences occ) outfits)
      else map (\<lambda>out. out\<lparr>history_based := Some False\<rparr>) outfits)"

definition generate_recommendations ::
  "item list \<Rightarrow> weather option \<Rightarrow> string \<Rightarrow> string list \<Rightarrow> preferences option \<Rightarrow>
   recommendations" where
  "generate_recommendations wardrobe_items weather_data occ specific_items user_preferences =
     (let wardrobe = filter_specific specific_items wardrobe_items;
          outfits = create_outfit_combinations (p_categorize_items wardrobe) weather_data occ;
          ranked = rank_candidates user_preferences occ outfits
      in \<lparr>rec_outfits = take 5 ranked, total_combinations = length ranked, rec_occasion = occ,
          weather_considered = (weather_data \<noteq> None),
          personalization_active = has_favorites user_preferences\<rparr>)"

section \<open>The recommendation entry point\<close>

subsection \<open>The service (\<open>get_personalized_recommendations\<close>)\<close>

text \<open>
  The document store and the weather source are external. For one call they are given
  by the answers they return to the queries of that call; an answer \<open>Inl\<close> is an
  exception raised by the query (or, for the queries by object identifier, by the
  conversion of the user identifier), carrying its message.
\<close>

datatype exn = Exn string

fun message :: "exn \<Rightarrow> string" where
  "message (Exn m) = m"

record user =
  style_preferences :: "string list"

record backend =
  get_database :: "exn option"
  find_user :: "exn + user option"
  clothing_by_object_id :: "exn + item list"
  clothing_by_string :: "exn + item list"
  history_by_object_id :: "exn + history_entry list"
  history_by_string :: "exn + history_entry list"
  weather_lookup :: "string \<Rightarrow> exn + weather option"

record personalization_data =
  history_entries :: nat
  top_favorite_colors :: "string list"
  worn_categories :: "(string \<times> nat) list"

text \<open>The dictionary the service returns: a failure with its message, or the success.\<close>

datatype service_result =
    Failed string "string option"
  | Succeeded recommendations "weather option" "string list" personalization_data

definition fetch_history :: "backend \<Rightarrow> history_entry list" where
  "fetch_history b =
     (case history_by_object_id b of
        Inr h \<Rightarrow> h
      | Inl e \<Rightarrow> (case history_by_string b of Inr h \<Rightarrow> h | Inl e' \<Rightarrow> []))"

definition fetch_weather :: "backend \<Rightarrow> string option \<Rightarrow> weather option" where
  "fetch_weather b location =
     (case location of
        None \<Rightarrow> None
      | Some loc \<Rightarrow>
          if loc = [] then None
          else (case weather_lookup b loc of Inl e \<Rightarrow> None | Inr w \<Rightarrow> w))"

definition or_casual :: "string option \<Rightarrow> string" where
  "or_casual occ = (case occ of None \<Rightarrow> ''casual'' | Some oc \<Rightarrow> if oc = [] then ''casual'' else oc)"

definition get_personalized_recommendations ::
  "backend \<Rightarrow> string option \<Rightarrow> string option \<Rightarrow> string list \<Rightarrow> service_result" where
  "get_personalized_recommendations b location occ specific_items =
     (case get_database b of
        Some db_error \<Rightarrow> Failed (''Database connection failed: '' @ message db_error) None
      | None \<Rightarrow>
     (case find_user b of
        Inl user_error \<Rightarrow> Failed (''Error fetching user: '' @ message user_error) None
      | Inr None \<Rightarrow> Failed ''User not found'' None
      | Inr (Some usr) \<Rightarrow>
     (case (case clothing_by_object_id b of
              Inr its \<Rightarrow> Inr its
            | Inl e \<Rightarrow> clothing_by_string b) of
        Inl wardrobe_error \<Rightarrow> Failed (''Error fetching wardrobe: '' @ message wardrobe_error) None
      | Inr wardrobe_items \<Rightarrow>
          if wardrobe_items = [] then
            Failed ''No clothing items in wardrobe''
                   (Some ''Add some items to your wardrobe first!'')
          else
            (let outfit_history = fetch_history b;
                 weather_data = fetch_weather b location;
                 user_preferences = analyze_user_history outfit_history;
                 recs = generate_recommendations wardrobe_items weather_data (or_casual occ)
                          specific_items (Some user_preferences)
             in Succeeded recs weather_data (style_preferences usr)
                  \<lparr>history_entries = length outfit_history,
                   top_favorite_colors = take 5 (favorite_colors user_preferences),
                   worn_categories = most_worn_categories user_preferences\<rparr>))))"

subsection \<open>The route (\<open>GET /ai-recommendations/personalized\<close>)\<close>

text \<open>The response body; keys a branch does not set are \<open>None\<close>.\<close>

record response =
  success :: bool
  error_message :: "string option"
  suggestion :: "string option"
  outfits :: "candidate list"
  resp_total_combinations :: nat
  resp_occasion :: string
  resp_weather_considered :: bool
  resp_personalization_active :: "bool option"
  resp_weather :: "weather option"
  resp_user_style :: "string list"
  resp_personalization :: "personalization_data option"

definition recommendations_route ::
  "backend \<Rightarrow> string option \<Rightarrow> string option \<Rightarrow> string list \<Rightarrow> response" where
  "recommendations_route b location occ include_items =
     (case get_personalized_recommendations b location occ include_items of
        Failed error_msg sugg \<Rightarrow>
          if substr_in ''No clothing items'' error_msg \<or> substr_in ''wardrobe'' (lower error_msg)
          then \<lparr>success = False, error_message = Some error_msg,
                suggestion = Some (case sugg of
                                     None \<Rightarrow> ''Add items to your wardrobe first!''
                                   | Some s \<Rightarrow> s),
                outfits = [], resp_total_combinations = 0, resp_occasion = or_casual occ,
                resp_weather_considered = (location \<noteq> None),
                resp_personalization_active = None, resp_weather = None,
                resp_user_style = [], resp_personalization = None\<rparr>
          else \<lparr>success = False, error_message = Some error_msg, suggestion = None,
                outfits = [], resp_total_combinations = 0, resp_occasion = or_casual occ,
                resp_weather_considered = False,
                resp_personalization_active = None, resp_weather = None,
                resp_user_style = [], resp_personalization = None\<rparr>
      | Succeeded recs weather_data user_style pdata \<Rightarrow>
          \<lparr>success = True, error_message = None, suggestion = None,
           outfits = rec_outfits recs, resp_total_combinations = total_combinations recs,
           resp_occasion = rec_occasion recs,
           resp_weather_considered = weather_considered recs,
           resp_personalization_active = Some (personalization_active recs),
           resp_weather = weather_data, resp_user_style = user_style,
           resp_personalization = Some pdata\<rparr>)"

section \<open>Example inputs\<close>

text \<open>Concrete wardrobes, draws and records at which the theorems below are instantiated.\<close>

definition plain_item :: "string \<Rightarrow> string \<Rightarrow> string \<Rightarrow> string \<Rightarrow> string \<Rightarrow> item" where
  "plain_item i name cat col mat =
     \<lparr>item_id = i, item_oid = None, item_type = None, item_name = name, description = [], category = cat,
      subcategory = [], season = [], formality = [], color = col, material = mat,
      embedding = None\<rparr>"

definition example_draws :: "nat \<Rightarrow> draws" where
  "example_draws k =
     \<lparr>u_dress = 1 / 2, k_dress = k, k_dress_shoes = k, u_dress_outer = 1 / 2,
      k_dress_outer = k, u_dress_acc = 1 / 2, k_dress_acc = k, k_top = k, k_bottom = k div 2,
      u_shoes = 1 / 2, k_shoes = k, u_outer = 1 / 2, k_outer = k, u_acc = 1 / 2, k_num_acc = k,
      k_sample = [k, k], u_style = 7 / 10, u_mock_style = 8 / 10, u_mock_color = 7 / 10,
      u_mock_occasion = 8 / 10, u_mock_weather = 9 / 10\<rparr>"

definition example_wardrobe :: "item list" where
  "example_wardrobe =
     [plain_item ''1'' ''Tee'' ''tops'' ''black'' ''wool'',
      plain_item ''2'' ''Jeans'' ''bottoms'' ''black'' ''cotton'',
      plain_item ''3'' ''Polo'' ''tops'' ''red'' [],
      plain_item ''4'' ''Belt'' ''accessories'' ''red'' []]"

definition example_outfit :: outfit where
  "example_outfit = \<lparr>items = take 2 example_wardrobe, occasion = ''casual''\<rparr>"

definition no_weather_service :: "string \<Rightarrow> weather option" where
  "no_weather_service location = None"

definition unknown_item :: item where
  "unknown_item = plain_item ''9'' ''Mystery Poncho'' [] ''teal'' []"

section \<open>Predicates used in the statements\<close>

text \<open>
  The composition rule of a candidate: at least two items, and a dress or both a top and
  a bottom, the three tests being those of \<open>_is_outfit_valid\<close>.
\<close>

definition well_composed :: "item list \<Rightarrow> bool" where
  "well_composed its = (2 \<le> length its \<and> (has_dress its \<or> (has_top its \<and> has_bottom its)))"

text \<open>
  The invariant of the generation loop: the accepted outfits have pairwise different
  signatures, all of them recorded as seen, and each is well composed.
\<close>

definition run_inv :: "scored_outfit list \<times> string list set \<Rightarrow> bool" where
  "run_inv st =
     (distinct (map (\<lambda>s. signature (so_items s)) (fst st))
      \<and> (\<lambda>s. signature (so_items s)) ` set (fst st) \<subseteq> snd st
      \<and> list_all (\<lambda>s. well_composed (so_items s)) (fst st))"

text \<open>All keywords of \<open>_detect_category\<close>, and all keywords of \<open>_categorize_items\<close>.\<close>

definition detect_category_words :: "string list" where
  "detect_category_words =
     detect_tops_words @ detect_bottoms_words @ detect_dresses_words @ detect_outerwear_words
     @ detect_shoes_words @ detect_accessories_words"

definition categorize_words :: "string list" where
  "categorize_words =
     tops_words @ bottoms_words @ dresses_words @ outerwear_words @ shoes_words
     @ accessories_words"

definition embedded_item :: "string \<Rightarrow> real list \<Rightarrow> item" where
  "embedded_item i e = (plain_item i ''Shirt'' ''tops'' ''blue'' ''cotton'')\<lparr>embedding := Some e\<rparr>"

definition example_candidates :: "item list" where
  "example_candidates =
     [embedded_item ''a'' [0, 1], embedded_item ''b'' [1, 0],
      plain_item ''c'' ''Hat'' ''accessories'' ''red'' [],
      embedded_item ''d'' [3 / 5, 4 / 5]]"












text \<open>The entry built for an item, and the test that keeps it.\<close>

definition entry ::
  "(real list \<Rightarrow> real list \<Rightarrow> real option) \<Rightarrow> real list \<Rightarrow> item \<Rightarrow> scored_item" where
  "entry sim q it =
     \<lparr>si_item = it,
      similarity_score =
        (case embedding it of
           None \<Rightarrow> 0
         | Some e \<Rightarrow> (case sim q e of None \<Rightarrow> 0 | Some s \<Rightarrow> py_round s 3))\<rparr>"

definition hit ::
  "(real list \<Rightarrow> real list \<Rightarrow> real option) \<Rightarrow> real list \<Rightarrow> real \<Rightarrow> item \<Rightarrow> bool" where
  "hit sim q m it =
     (case embedding it of
        None \<Rightarrow> False
      | Some e \<Rightarrow> (case sim q e of None \<Rightarrow> False | Some s \<Rightarrow> m \<le> s))"

text \<open>The identifiers of a returned list, and a returned list without its last \<open>n\<close> entries.\<close>

definition returned_ids :: "error + scored_item list \<Rightarrow> error + string list" where
  "returned_ids r = map_sum id (map (\<lambda>x. item_id (si_item x))) r"

definition without_last :: "nat \<Rightarrow> error + 'a list \<Rightarrow> error + 'a list" where
  "without_last n r = map_sum id (\<lambda>xs. take (length xs - n) xs) r"

definition worn :: "string \<Rightarrow> string \<Rightarrow> string \<Rightarrow> item" where
  "worn i cat col = plain_item i [] cat col []"

definition example_history :: "history_entry list" where
  "example_history =
     [\<lparr>outfit_items = [worn ''1'' ''tops'' ''Navy'', worn ''2'' ''bottoms'' '' navy ''],
       is_favorite = True, rating = None, entry_occasion = Occasion ''casual''\<rparr>,
      \<lparr>outfit_items = [worn ''3'' ''tops'' ''red'', worn ''2'' ''bottoms'' ''navy''],
       is_favorite = False, rating = Some 4, entry_occasion = Missing\<rparr>,
      \<lparr>outfit_items = [worn ''3'' ''tops'' ''red''],
       is_favorite = False, rating = Some 0, entry_occasion = Occasion ''party''\<rparr>]"

text \<open>
  Vocabulary for the preference miner: how often a colour occurs among the items of an
  entry, the score a colour accumulates (each entry counted once per item of that
  colour), and the counted colours of a history.
\<close>

definition colour_count :: "string \<Rightarrow> history_entry \<Rightarrow> nat" where
  "colour_count c e = length (filter (\<lambda>it. clean (color it) = c) (outfit_items e))"

definition accumulated :: "history_entry list \<Rightarrow> string \<Rightarrow> real" where
  "accumulated h c = sum_list (map (\<lambda>e. outfit_score e * real (colour_count c e)) h)"

definition history_colors :: "history_entry list \<Rightarrow> string list" where
  "history_colors h =
     filter counted_color (concat (map (\<lambda>e. map (\<lambda>it. clean (color it)) (outfit_items e)) h))"

text \<open>
  The same in the words of the specification: the rating counts whenever it is present,
  and an entry counts once for each colour it contains.
\<close>

definition spec_outfit_score :: "history_entry \<Rightarrow> real" where
  "spec_outfit_score e =
     (if is_favorite e then 5 else (case rating e of None \<Rightarrow> 3 | Some r \<Rightarrow> real_of_int r))"

definition spec_color_score :: "history_entry list \<Rightarrow> string \<Rightarrow> real" where
  "spec_color_score h c =
     sum_list (map spec_outfit_score
       (filter (\<lambda>e. c \<in> set (map (\<lambda>it. clean (color it)) (outfit_items e))) h))"

text \<open>Crediting one item's colour with a score, the effect of the inner loop on the scores.\<close>

definition credit :: "real \<Rightarrow> (string \<times> real) list \<Rightarrow> item \<Rightarrow> (string \<times> real) list" where
  "credit sc m it =
     (if counted_color (clean (color it)) then upd (clean (color it)) (\<lambda>v. v + sc) 0 m else m)"

definition ledger_value :: "(string \<times> real) list \<Rightarrow> string \<Rightarrow> real" where
  "ledger_value m c = (case map_of m c of None \<Rightarrow> 0 | Some v \<Rightarrow> v)"

definition long_history :: "history_entry list" where
  "long_history =
     [\<lparr>outfit_items = map (\<lambda>c. worn [] ''tops'' c)
                         [''a'', ''b'', ''c'', ''d'', ''e'', ''f'', ''g'', ''h'', ''i'', ''j'', ''k''],
       is_favorite = False, rating = Some 2, entry_occasion = Null\<rparr>,
      \<lparr>outfit_items = [worn [] ''tops'' ''k''],
       is_favorite = True, rating = None, entry_occasion = Missing\<rparr>]"

text \<open>Vocabulary for the re-ranker: the base candidates of a call and their ranking.\<close>

definition base_candidates ::
  "item list \<Rightarrow> weather option \<Rightarrow> string \<Rightarrow> string list \<Rightarrow> candidate list" where
  "base_candidates wardrobe_items weather_data occ specific_items =
     create_outfit_combinations
       (p_categorize_items (filter_specific specific_items wardrobe_items)) weather_data occ"

definition ranking ::
  "item list \<Rightarrow> weather option \<Rightarrow> string \<Rightarrow> string list \<Rightarrow> preferences option \<Rightarrow>
   candidate list" where
  "ranking wardrobe_items weather_data occ specific_items user_preferences =
     rank_candidates user_preferences occ
       (base_candidates wardrobe_items weather_data occ specific_items)"

definition blend :: "preferences option \<Rightarrow> string \<Rightarrow> candidate \<Rightarrow> real" where
  "blend user_preferences occ b =
     4 / 10 * c_style_score b + 6 / 10 * calculate_personalized_score b user_preferences occ"

text \<open>What the personalized copy of a base candidate carries.\<close>

definition blended_copy :: "preferences option \<Rightarrow> string \<Rightarrow> candidate \<Rightarrow> bool" where
  "blended_copy user_preferences occ b =
     (let out = personalize user_preferences occ b;
          p = calculate_personalized_score b user_preferences occ
      in c_items out = c_items b
         \<and> personalized_score out = Some p \<and> 0 \<le> p \<and> p \<le> 100
         \<and> c_combined_score out = Some (blend user_preferences occ b)
         \<and> rank_key out = blend user_preferences occ b
         \<and> history_based out = Some True)"

definition example_closet :: "item list" where
  "example_closet =
     [plain_item ''1'' ''Blue Shirt'' ''tops'' ''navy'' ''cotton'',
      plain_item ''2'' ''Jeans'' ''bottoms'' ''navy'' ''denim'',
      plain_item ''3'' ''Sneakers'' ''shoes'' ''white'' [],
      plain_item ''4'' ''Red Shirt'' ''tops'' ''red'' ''cotton'']"

text \<open>An answer that holds no item: an exception, or the empty list.\<close>

definition no_items :: "exn + 'a list \<Rightarrow> bool" where
  "no_items r = (case r of Inl e \<Rightarrow> True | Inr xs \<Rightarrow> xs = [])"

definition example_backend :: "exn + item list \<Rightarrow> backend" where
  "example_backend clothing =
     \<lparr>get_database = None, find_user = Inr (Some \<lparr>style_preferences = [''casual'']\<rparr>),
      clothing_by_object_id = clothing, clothing_by_string = Inr [],
      history_by_object_id = Inr example_history, history_by_string = Inr [],
      weather_lookup = (\<lambda>loc. Inr None)\<rparr>"

text \<open>The wardrobe the service reads is empty: the query it relies on answers with no item.\<close>

definition empty_wardrobe :: "backend \<Rightarrow> bool" where
  "empty_wardrobe b =
     (case clothing_by_object_id b of
        Inr its \<Rightarrow> its = []
      | Inl e \<Rightarrow> no_items (clothing_by_string b))"

section \<open>Strings: basic facts\<close>

lemma lower_char_idem: "lower_char (lower_char c) = lower_char c"
  unfolding lower_char_def letter_table_def by (simp split: option.splits if_splits)

lemma lower_idem: "lower (lower s) = lower s"
  by (simp add: lower_def lower_char_idem)

section \<open>Colour standardisation\<close>

lemma first_color_match_mem:
  "first_color_match m s = Some c \<Longrightarrow> c \<in> set (map fst m)"
  by (induction m s rule: first_color_match.induct) (auto split: if_splits)

lemma canonical_all_matched:
  "list_all (\<lambda>c. first_color_match color_map c = Some c) (map fst color_map)"
  by code_simp

lemma canonical_matched:
  "c \<in> set (map fst color_map) \<Longrightarrow> first_color_match color_map c = Some c"
  using canonical_all_matched unfolding list_all_iff by blast

lemma canonical_all_lower: "list_all (\<lambda>c. lower c = c) (map fst color_map)"
  by code_simp

text \<open>
  Claim C10. Let \<open>low\<close> be the lower-casing function of the library. It is
  idempotent at the input \<open>c\<close> and leaves the twelve canonical colour names, which
  are lower-case ASCII words, unchanged: both are facts of \<open>str.lower\<close> for every
  Unicode string. Then \<open>_standardize_color\<close> is idempotent at \<open>c\<close>, its result is
  entirely lower-case (lower-casing it changes nothing), and the result is one of the
  twelve canonical colour names or the lower-cased input.
\<close>

theorem standardize_color_idempotent_lowercase:
  assumes idem: "low (low c) = low c"
    and names: "list_all (\<lambda>name. low name = name) (map fst color_map)"
  shows "standardize_color_with low (standardize_color_with low c) = standardize_color_with low c
   \<and> low (standardize_color_with low c) = standardize_color_with low c
   \<and> (standardize_color_with low c \<in> set (map fst color_map)
       \<or> standardize_color_with low c = low c)"
proof (cases "first_color_match color_map (low c)")
  case None
  then have eq: "standardize_color_with low c = low c"
    by (simp add: standardize_color_with_def)
  have "standardize_color_with low (low c) = low c"
    using None idem by (simp add: standardize_color_with_def)
  then show ?thesis using eq idem by simp
next
  case (Some s)
  then have eq: "standardize_color_with low c = s"
    by (simp add: standardize_color_with_def)
  have mem: "s \<in> set (map fst color_map)"
    using Some by (rule first_color_match_mem)
  then have fixed: "low s = s"
    using names unfolding list_all_iff by blast
  have "standardize_color_with low s = s"
    using canonical_matched[OF mem] fixed by (simp add: standardize_color_with_def)
  then show ?thesis using eq mem fixed by simp
qed

theorem standardize_color_idempotent_lowercase_witness:
  "lower (lower ''Dark Blue'') = lower ''Dark Blue''
   \<and> list_all (\<lambda>name. lower name = name) (map fst color_map)
   \<and> standardize_color ''Dark Blue'' = ''navy''
   \<and> standardize_color_with lower (standardize_color_with lower ''Dark Blue'')
       = standardize_color_with lower ''Dark Blue''
   \<and> lower (standardize_color_with lower ''Dark Blue'') = standardize_color_with lower ''Dark Blue''"
proof -
  have "standardize_color ''Dark Blue'' = ''navy''" by code_simp
  then show ?thesis
    using standardize_color_idempotent_lowercase
            [of lower "''Dark Blue''", OF lower_idem canonical_all_lower]
          canonical_all_lower lower_idem [of "''Dark Blue''"]
    by simp
qed

section \<open>The generation loop\<close>

lemma so_items_scored [simp]:
  "so_items (add_weather its w (score_outfit style out occ w')) = items out"
  by (simp add: add_weather_def score_outfit_def Let_def split: option.splits)

lemma valid_well_composed: "is_outfit_valid out occ \<Longrightarrow> well_composed (items out)"
  by (auto simp: is_outfit_valid_def well_composed_def split: if_splits)

lemma attempt_inv: "run_inv st \<Longrightarrow> run_inv (attempt d cz occ w st)"
  by (auto simp: run_inv_def attempt_def Let_def valid_well_composed split: option.splits)

lemma attempt_length: "length (fst (attempt d cz occ w st)) \<le> Suc (length (fst st))"
  by (auto simp: attempt_def Let_def split: option.splits)

lemma loop_step:
  "int (length (fst st)) < count \<Longrightarrow> int a < count * 20 \<Longrightarrow>
   generation_loop rnd cz occ w count st a =
   generation_loop rnd cz occ w count (attempt (rnd a) cz occ w st) (Suc a)"
  by (subst generation_loop.simps) simp

lemma loop_stop:
  "\<not> (int (length (fst st)) < count \<and> int a < count * 20) \<Longrightarrow>
   generation_loop rnd cz occ w count st a = (st, a)"
  by (subst generation_loop.simps) auto

lemma loop_inv: "run_inv st \<Longrightarrow> run_inv (fst (generation_loop rnd cz occ w count st a))"
proof (induction rnd cz occ w count st a rule: generation_loop.induct)
  case (1 rnd cz occ w count st a)
  show ?case
  proof (cases "int (length (fst st)) < count \<and> int a < count * 20")
    case True
    then show ?thesis
      using 1 by (simp add: loop_step attempt_inv)
  next
    case False
    then show ?thesis using 1 by (simp add: loop_stop)
  qed
qed

lemma loop_attempts:
  "snd (generation_loop rnd cz occ w count st a) \<le> max a (nat (count * 20))"
proof (induction rnd cz occ w count st a rule: generation_loop.induct)
  case (1 rnd cz occ w count st a)
  show ?case
  proof (cases "int (length (fst st)) < count \<and> int a < count * 20")
    case True
    then have "snd (generation_loop rnd cz occ w count (attempt (rnd a) cz occ w st) (Suc a))
                 \<le> max (Suc a) (nat (count * 20))"
      using 1 by blast
    then show ?thesis
      using True by (simp add: loop_step) linarith
  next
    case False
    then show ?thesis by (simp add: loop_stop)
  qed
qed

lemma loop_length:
  "length (fst (fst (generation_loop rnd cz occ w count st a)))
     \<le> max (length (fst st)) (nat count)"
proof (induction rnd cz occ w count st a rule: generation_loop.induct)
  case (1 rnd cz occ w count st a)
  show ?case
  proof (cases "int (length (fst st)) < count \<and> int a < count * 20")
    case True
    have "length (fst (attempt (rnd a) cz occ w st)) \<le> nat count"
      using True attempt_length[of "rnd a" cz occ w st] by linarith
    moreover have
      "length (fst (fst (generation_loop rnd cz occ w count
                           (attempt (rnd a) cz occ w st) (Suc a))))
         \<le> max (length (fst (attempt (rnd a) cz occ w st))) (nat count)"
      using True 1 by blast
    ultimately show ?thesis
      using True by (simp add: loop_step)
  next
    case False
    then show ?thesis by (simp add: loop_stop)
  qed
qed

lemma run_inv_init: "run_inv ([], {})"
  by (simp add: run_inv_def)

lemma run_unique_valid:
  "distinct (map (\<lambda>s. signature (so_items s)) (fst (generation_run rnd wd occ count w)))
   \<and> list_all (\<lambda>s. well_composed (so_items s)) (fst (generation_run rnd wd occ count w))"
  using loop_inv[OF run_inv_init, of rnd "categorize_items wd" occ w count 0]
  by (simp add: generation_run_def Let_def run_inv_def)

section \<open>Slices and sorting\<close>

lemma distinct_map_sort_key: "distinct (map f (sort_key k xs)) = distinct (map f xs)"
  by (simp add: distinct_map)

lemma distinct_map_prefix: "distinct (map f xs) \<Longrightarrow> distinct (map f (py_prefix xs k))"
  by (simp add: py_prefix_def take_map[symmetric] del: take_map)

lemma list_all_take: "list_all P xs \<Longrightarrow> list_all P (take n xs)"
  by (auto simp: list_all_iff dest: in_set_takeD)

lemma list_all_prefix: "list_all P xs \<Longrightarrow> list_all P (py_prefix xs k)"
  by (simp add: py_prefix_def list_all_take)

lemma length_prefix: "length xs \<le> nat k \<Longrightarrow> length (py_prefix xs k) \<le> nat k"
  by (simp add: py_prefix_def)

section \<open>The mock outfits\<close>

lemma mock_sorted_ids:
  "sort [''mock_1'', ''mock_2'', ''mock_4''] = [''mock_1'', ''mock_2'', ''mock_4'']"
  "sort [''mock_1'', ''mock_5'', ''mock_4''] = [''mock_1'', ''mock_4'', ''mock_5'']"
  "sort [''mock_6'', ''mock_2'', ''mock_3'', ''mock_4'']
     = [''mock_2'', ''mock_3'', ''mock_4'', ''mock_6'']"
  by code_simp+

lemma mock_sigs:
  "map (\<lambda>s. signature (so_items s)) (map (mock_outfit rnd occ) [0 ..< 3])
   = [[''mock_1'', ''mock_2'', ''mock_4''], [''mock_1'', ''mock_4'', ''mock_5''],
      [''mock_2'', ''mock_3'', ''mock_4'', ''mock_6'']]"
  by (simp add: upt_rec mock_outfit_def mock_items_def mock_item_def signature_def
        item_key_def Let_def mock_sorted_ids del: sort_key_simps)

lemma lower_mock_categories:
  "lower ''tops'' = ''tops''" "lower ''bottoms'' = ''bottoms''"
  "lower ''outerwear'' = ''outerwear''" "lower ''shoes'' = ''shoes''"
  by code_simp+

lemma mock_ok:
  "list_all (\<lambda>s. well_composed (so_items s)) (map (mock_outfit rnd occ) [0 ..< 3])"
  by (simp add: upt_rec mock_outfit_def mock_items_def mock_item_def well_composed_def Let_def
        has_dress_def has_top_def has_bottom_def lower_mock_categories)

lemma mock_take:
  "get_mock_outfits rnd occ count = take (nat count) (map (mock_outfit rnd occ) [0 ..< 3])"
proof -
  have "[0 ..< nat (min count 3)] = take (nat count) [0 ..< 3]"
    by (cases "count \<le> 3") (auto simp: min_def take_upt)
  then show ?thesis by (simp add: get_mock_outfits_def take_map)
qed

lemma mock_unique_valid:
  "distinct (map (\<lambda>s. signature (so_items s)) (get_mock_outfits rnd occ count))
   \<and> list_all (\<lambda>s. well_composed (so_items s)) (get_mock_outfits rnd occ count)"
proof -
  let ?all = "map (mock_outfit rnd occ) [0 ..< 3]"
  have d: "distinct (map (\<lambda>s. signature (so_items s)) ?all)"
    unfolding mock_sigs by simp
  have "distinct (take (nat count) (map (\<lambda>s. signature (so_items s)) ?all))"
    using d by (rule distinct_take)
  then have "distinct (map (\<lambda>s. signature (so_items s)) (take (nat count) ?all))"
    by (simp only: take_map)
  moreover have "list_all (\<lambda>s. well_composed (so_items s)) (take (nat count) ?all)"
    using mock_ok[of rnd occ] by (rule list_all_take)
  ultimately show ?thesis by (simp only: mock_take)
qed

section \<open>Uniqueness and composition of the suggestions\<close>

text \<open>
  Claim C1. Whatever the draws, the weather source, the stored rows, the occasion, the
  count, the location and the weather data, the outfits returned by
  \<open>generate_suggestions\<close> have pairwise different signatures (sorted tuples of item
  identifiers), and each has at least two items and holds a dress, or a top and a bottom.
  This covers the mock outfits returned for an empty wardrobe.
\<close>

theorem generate_suggestions_unique_valid:
  "distinct (map (\<lambda>s. signature (so_items s))
               (generate_suggestions rnd current_weather rows occ count location weather_data))
   \<and> list_all (\<lambda>s. 2 \<le> length (so_items s)
                      \<and> (has_dress (so_items s)
                          \<or> (has_top (so_items s) \<and> has_bottom (so_items s))))
        (generate_suggestions rnd current_weather rows occ count location weather_data)"
proof (cases "get_user_wardrobe rows = []")
  case True
  then show ?thesis
    using mock_unique_valid[of rnd occ count]
    by (simp add: generate_suggestions_def well_composed_def)
next
  case False
  let ?sig = "\<lambda>s. signature (so_items s)"
  let ?run = "fst (generation_run rnd (get_user_wardrobe rows) occ count
                    (resolve_weather current_weather location weather_data))"
  have r: "distinct (map ?sig ?run)" "list_all (\<lambda>s. well_composed (so_items s)) ?run"
    using run_unique_valid by blast+
  have "distinct (map ?sig (sort_desc top_key ?run))"
    using r(1) by (simp add: sort_desc_def distinct_map_sort_key)
  then have "distinct (map ?sig (py_prefix (sort_desc top_key ?run) count))"
    by (rule distinct_map_prefix)
  moreover have "list_all (\<lambda>s. well_composed (so_items s)) (sort_desc top_key ?run)"
    using r(2) by (simp add: sort_desc_def list_all_iff)
  then have "list_all (\<lambda>s. well_composed (so_items s))
               (py_prefix (sort_desc top_key ?run) count)"
    by (rule list_all_prefix)
  ultimately show ?thesis
    using False by (simp add: generate_suggestions_def Let_def well_composed_def)
qed

lemma example_run_signatures:
  "map (\<lambda>s. signature (so_items s))
     (generate_suggestions example_draws no_weather_service example_wardrobe ''casual'' 2
        None None)
   = [[''1'', ''2'', ''4''], [''2'', ''3'', ''4'']]"
  by code_simp

theorem generate_suggestions_unique_valid_witness:
  "length (generate_suggestions example_draws no_weather_service example_wardrobe ''casual'' 2
             None None) = 2
   \<and> distinct (map (\<lambda>s. signature (so_items s))
        (generate_suggestions example_draws no_weather_service example_wardrobe ''casual'' 2
           None None))
   \<and> list_all (\<lambda>s. 2 \<le> length (so_items s)
                      \<and> (has_dress (so_items s)
                          \<or> (has_top (so_items s) \<and> has_bottom (so_items s))))
        (generate_suggestions example_draws no_weather_service example_wardrobe ''casual'' 2
           None None)"
proof -
  have "length (map (\<lambda>s. signature (so_items s))
          (generate_suggestions example_draws no_weather_service example_wardrobe ''casual'' 2
             None None)) = 2"
    unfolding example_run_signatures by simp
  then show ?thesis
    using generate_suggestions_unique_valid
            [of example_draws no_weather_service example_wardrobe "''casual''" 2 None None]
    by simp
qed

section \<open>Bounds of a generation run\<close>

text \<open>
  Claim C9. The loop of \<open>generate_suggestions\<close> is a total function (its termination
  is proved with the measure \<open>count * 20 - attempts\<close>); a run makes at most
  \<open>count * 20\<close> attempts and accepts at most \<open>count\<close> outfits, and
  \<open>generate_suggestions\<close> returns at most \<open>count\<close> outfits, on every wardrobe,
  however small. (A negative \<open>count\<close> gives no attempt and no outfit: \<open>nat\<close> of a
  negative integer is zero.)
\<close>

theorem generation_bounded:
  "snd (generation_run rnd wardrobe occ count weather_data) \<le> nat (count * 20)
   \<and> length (fst (generation_run rnd wardrobe occ count weather_data)) \<le> nat count
   \<and> length (generate_suggestions rnd current_weather rows occ count location weather_data)
       \<le> nat count"
proof -
  have a: "snd (generation_run rnd wardrobe occ count weather_data) \<le> nat (count * 20)"
    using loop_attempts[of rnd "categorize_items wardrobe" occ weather_data count "([], {})" 0]
    by (simp add: generation_run_def Let_def)
  have b: "length (fst (generation_run rnd wd occ count w)) \<le> nat count" for wd w
    using loop_length[of rnd "categorize_items wd" occ w count "([], {})" 0]
    by (simp add: generation_run_def Let_def)
  have c: "length (get_mock_outfits rnd occ count) \<le> nat count"
    by (simp add: mock_take)
  have "length (py_prefix (sort_desc top_key (fst (generation_run rnd wd occ count w))) count)
          \<le> nat count" for wd w
    using b[of wd w] by (intro length_prefix) (simp add: sort_desc_def)
  then show ?thesis
    using a b c by (simp add: generate_suggestions_def Let_def)
qed

lemma example_short_run:
  "generation_run example_draws (take 1 example_wardrobe) ''casual'' 1 None = ([], 20)"
  by code_simp

theorem generation_bounded_witness:
  "generation_run example_draws (take 1 example_wardrobe) ''casual'' 1 None = ([], 20)
   \<and> snd (generation_run example_draws (take 1 example_wardrobe) ''casual'' 1 None) \<le> 20
   \<and> length (generate_suggestions example_draws no_weather_service (take 1 example_wardrobe)
               ''casual'' 1 None None) \<le> 1"
  using generation_bounded
          [where rnd = example_draws and wardrobe = "take 1 example_wardrobe"
             and occ = "''casual''" and count = 1 and weather_data = None
             and current_weather = no_weather_service and rows = "take 1 example_wardrobe"
             and location = None]
        example_short_run
  by simp

section \<open>Scoring without weather data\<close>

lemma py_round_one: "py_round 1 n = 1"
  by (simp add: py_round_def Let_def)

lemma py_round_unit:
  assumes "0 \<le> x" "x \<le> 1"
  shows "0 \<le> py_round x n \<and> py_round x n \<le> 1"
proof -
  define y where "y = x * 10 ^ n"
  define f where "f = \<lfloor>y\<rfloor>"
  define k where "k = (if y - of_int f < 1 / 2 then f else if 1 / 2 < y - of_int f then f + 1
                       else if even f then f else f + 1)"
  have y0: "0 \<le> y" using assms(1) by (simp add: y_def)
  have y1: "y \<le> 10 ^ n" using assms(2) by (simp add: y_def mult_left_le_one_le)
  have f0: "0 \<le> f" using y0 by (simp add: f_def)
  have fy: "of_int f \<le> y" by (simp add: f_def)
  have k0: "0 \<le> k" using f0 by (simp add: k_def)
  have "of_int k \<le> (10::real) ^ n"
  proof (cases "k = f")
    case True
    have "of_int f \<le> (10::real) ^ n" using fy y1 by (rule order_trans)
    then show ?thesis using True by simp
  next
    case False
    then have kf: "k = f + 1" and "1 / 2 \<le> y - of_int f"
      by (auto simp: k_def split: if_splits)
    then have "of_int f < y" by simp
    then have "of_int f < (10::real) ^ n" using y1 by (rule less_le_trans)
    then have "f < 10 ^ n" by (simp only: of_int_less_numeral_power_cancel_iff)
    then have "f + 1 \<le> 10 ^ n" by simp
    then have "(of_int (f + 1) :: real) \<le> 10 ^ n"
      by (simp only: of_int_le_numeral_power_cancel_iff)
    then show ?thesis using kf by simp
  qed
  moreover have "py_round x n = of_int k / 10 ^ n"
    by (simp add: py_round_def Let_def k_def f_def y_def)
  ultimately show ?thesis using k0 by (simp add: divide_le_eq_1)
qed

lemma clamp01_unit: "0 \<le> clamp01 s \<and> clamp01 s \<le> 1"
  by (simp add: clamp01_def)

lemma color_score_unit:
  "0 \<le> calculate_color_score its \<and> calculate_color_score its \<le> 1"
  using clamp01_unit by (simp add: calculate_color_score_def Let_def)

lemma occasion_score_unit:
  "0 \<le> calculate_occasion_score its occ \<and> calculate_occasion_score its occ \<le> 1"
  using clamp01_unit by (simp add: calculate_occasion_score_def Let_def)

text \<open>
  Claim C3, as stated, fails: scored without weather data, an outfit gets the weather
  score \<open>1.0\<close> from \<open>score_outfit\<close>, not \<open>0.5\<close>.
\<close>

theorem score_outfit_no_weather_counterexample:
  "weather_score (scores (score_outfit (7 / 10) example_outfit ''casual'' None)) = 1
   \<and> weather_score (scores (score_outfit (7 / 10) example_outfit ''casual'' None)) \<noteq> 1 / 2"
  by (simp add: score_outfit_def Let_def py_round_one)

text \<open>
  Claim C3, amended. Scored without weather data, every outfit gets the weather score
  \<open>1.0\<close> (the value \<open>0.5\<close> is what \<open>_calculate_weather_score\<close> returns
  without weather data, a call \<open>score_outfit\<close> does not make in that case) and is
  flagged weather appropriate, and scoring still produces a usable combined score: for
  every style draw of \<open>random.uniform(0.6, 0.95)\<close> it lies in \<open>[0, 1]\<close>.
\<close>

theorem score_outfit_no_weather:
  "weather_score (scores (score_outfit style out occ None)) = 1
   \<and> is_weather_appropriate (score_outfit style out occ None)
   \<and> calculate_weather_score (items out) None = 1 / 2
   \<and> (6 / 10 \<le> style \<and> style \<le> 95 / 100 \<longrightarrow>
        0 \<le> combined_score (scores (score_outfit style out occ None))
        \<and> combined_score (scores (score_outfit style out occ None)) \<le> 1)"
proof -
  let ?c = "calculate_color_score (items out)"
  let ?o = "calculate_occasion_score (items out) occ"
  let ?sum = "style * (3 / 10) + ?c * (25 / 100) + ?o * (25 / 100) + 1 * (2 / 10)"
  have comb: "combined_score (scores (score_outfit style out occ None)) = py_round ?sum 2"
    by (simp add: score_outfit_def Let_def)
  have "0 \<le> py_round ?sum 2 \<and> py_round ?sum 2 \<le> 1" if "6 / 10 \<le> style" "style \<le> 95 / 100"
  proof (rule py_round_unit)
    show "0 \<le> ?sum"
      using that color_score_unit[of "items out"] occasion_score_unit[of "items out" occ] by simp
    show "?sum \<le> 1"
      using that color_score_unit[of "items out"] occasion_score_unit[of "items out" occ] by simp
  qed
  then show ?thesis
    unfolding comb by (simp add: score_outfit_def Let_def py_round_one calculate_weather_score_def)
qed

theorem score_outfit_no_weather_witness:
  "(6 / 10 :: real) \<le> 85 / 100 \<and> (85 / 100 :: real) \<le> 95 / 100
   \<and> weather_score (scores (score_outfit (85 / 100) example_outfit ''casual'' None)) = 1
   \<and> is_weather_appropriate (score_outfit (85 / 100) example_outfit ''casual'' None)
   \<and> 0 \<le> combined_score (scores (score_outfit (85 / 100) example_outfit ''casual'' None))
   \<and> combined_score (scores (score_outfit (85 / 100) example_outfit ''casual'' None)) \<le> 1"
  using score_outfit_no_weather [of "85 / 100" example_outfit "''casual''"]
  by simp

section \<open>Items that match no keyword\<close>

lemma any_word_in_append:
  "any_word_in (ws @ vs) s = (any_word_in ws s \<or> any_word_in vs s)"
  by (auto simp: any_word_in_def list_ex_iff)

lemma word_hits_append:
  "word_hits (ws @ vs) cat name = (word_hits ws cat name \<or> word_hits vs cat name)"
  by (auto simp: word_hits_def list_ex_iff)

lemma detect_category_other:
  "\<not> any_word_in detect_category_words (lower (item_name it)) \<Longrightarrow> detect_category it = ''other''"
  by (simp add: detect_category_def detect_category_words_def any_word_in_append Let_def)

lemma categorize_item_default:
  "\<not> word_hits categorize_words (lower (category it)) (lower (item_name it)) \<Longrightarrow>
   categorize_item c it = c\<lparr>tops := tops c @ [it], warnings := warnings c @ [item_name it]\<rparr>"
  by (simp add: categorize_item_def categorize_words_def word_hits_append Let_def)

text \<open>
  Claim C8, as stated, fails: for a record whose name and description contain no keyword
  of its table, \<open>_detect_category\<close> infers \<open>other\<close>, not \<open>tops\<close>.
\<close>

theorem detect_category_counterexample:
  "\<not> any_word_in detect_category_words (lower (item_name unknown_item))
   \<and> \<not> any_word_in detect_category_words (lower (description unknown_item))
   \<and> detect_category unknown_item = ''other''
   \<and> detect_category unknown_item \<noteq> ''tops''"
  by code_simp

text \<open>
  Claim C8, amended. For every record whose lower-cased name contains no keyword of its
  table, \<open>_detect_category\<close> returns \<open>other\<close>. For every item whose lower-cased
  category and name contain no keyword of the table of \<open>_categorize_items\<close>, that
  function appends the item to the \<open>tops\<close> bucket, leaves the other buckets alone and
  logs one warning; no error arises.
\<close>

theorem unmatched_item_defaults:
  "(\<not> any_word_in detect_category_words (lower (item_name it))
      \<longrightarrow> detect_category it = ''other'')
   \<and> (\<not> word_hits categorize_words (lower (category it)) (lower (item_name it))
      \<longrightarrow> categorize_item c it
           = c\<lparr>tops := tops c @ [it], warnings := warnings c @ [item_name it]\<rparr>)"
  using detect_category_other categorize_item_default by blast

lemma unknown_item_unmatched:
  "\<not> any_word_in detect_category_words (lower (item_name unknown_item))"
  "\<not> word_hits categorize_words (lower (category unknown_item))
       (lower (item_name unknown_item))"
  by code_simp+

theorem unmatched_item_defaults_witness:
  "\<not> any_word_in detect_category_words (lower (item_name unknown_item))
   \<and> \<not> word_hits categorize_words (lower (category unknown_item))
         (lower (item_name unknown_item))
   \<and> detect_category unknown_item = ''other''
   \<and> categorize_item no_buckets unknown_item
       = no_buckets\<lparr>tops := [unknown_item], warnings := [''Mystery Poncho'']\<rparr>"
  using unmatched_item_defaults [of unknown_item no_buckets] unknown_item_unmatched
  by (simp add: no_buckets_def unknown_item_def plain_item_def)

section \<open>Similarity index\<close>









lemma clip_scan_eq:
  "clip_scan q m its = map (entry compute_similarity q) (filter (hit compute_similarity q m) its)"
  by (induction its) (auto simp: entry_def hit_def split: option.splits)




lemma sorted_desc: "sorted_wrt (\<ge>) (map key (sort_desc key xs))"
proof -
  have "sorted (map (\<lambda>x. - key x) (sort_key (\<lambda>x. - key x) xs))"
    by (rule sorted_sort_key)
  then show ?thesis
    by (simp add: sort_desc_def sorted_wrt_map)
qed



lemma prefix_all: "int (length xs) \<le> k \<Longrightarrow> py_prefix xs k = xs"
  by (simp add: py_prefix_def)

lemma set_sort_desc [simp]: "set (sort_desc key xs) = set xs"
  by (simp add: sort_desc_def)

lemma length_sort_desc [simp]: "length (sort_desc key xs) = length xs"
  by (simp add: sort_desc_def)












lemma example_rounds: "py_round 0 3 = 0" "py_round 1 3 = 1" "py_round (3 / 5) 3 = 3 / 5"
  by (simp_all add: py_round_def Let_def)







section \<open>No validation failure in the similarity index\<close>

lemma fashion_scan_length: "fashion_scan q m its = Inr sims \<Longrightarrow> length sims \<le> length its"
proof (induction its arbitrary: sims)
  case Nil
  then show ?case by simp
next
  case (Cons it its)
  show ?case
  proof (cases "embedding it")
    case None
    then show ?thesis using Cons by fastforce
  next
    case (Some e)
    from Cons.prems Some obtain s rest where
      r: "fashion_scan q m its = Inr rest"
      and eq: "sims = (if m \<le> s then \<lparr>si_item = it, similarity_score = py_round s 3\<rparr> # rest
                       else rest)"
      by (auto split: sum.splits)
    from Cons.IH[OF r] show ?thesis using eq by auto
  qed
qed

lemma clip_scan_length: "length (clip_scan q m its) \<le> length its"
  by (simp add: clip_scan_eq)

lemma prefix_negative:
  "k < 0 \<Longrightarrow> py_prefix xs k = take (length xs - nat (- k)) xs"
proof -
  assume "k < 0"
  then have "nat (int (length xs) + k) = length xs - nat (- k)" by linarith
  then show ?thesis using \<open>k < 0\<close> by (simp add: py_prefix_def)
qed

lemma ranked_negative:
  "length sims \<le> length its \<Longrightarrow> k < 0 \<Longrightarrow>
   Inr (py_prefix (sort_desc key sims) k)
     = without_last (nat (- k)) (Inr (py_prefix (sort_desc key sims) (int (length its))) :: error + 'a list)"
  by (simp add: without_last_def prefix_negative prefix_all)

text \<open>
  Claim C7, as stated, fails: a negative \<open>top_k\<close> and a zero-length query both give an
  ordinary returned list.
\<close>

theorem find_similar_items_validation_counterexample:
  "returned_ids (fashion_find_similar_items [1, 0] example_candidates (- 1) (1 / 5)) = Inr [''b'']
   \<and> returned_ids (fashion_find_similar_items [] example_candidates 5 (1 / 5)) = Inr []
   \<and> returned_ids (clip_find_similar_items [] example_candidates 5 (- 1))
       = Inr [''a'', ''b'', ''d'']"
proof -
  have "returned_ids (fashion_find_similar_items [1, 0] example_candidates (- 1) (1 / 5))
          = Inr [''b'']"
    by code_simp
  moreover have "returned_ids (fashion_find_similar_items [] example_candidates 5 (1 / 5)) = Inr []"
    by code_simp
  moreover have "returned_ids (clip_find_similar_items [] example_candidates 5 (- 1))
                   = Inr [''a'', ''b'', ''d'']"
    by (simp add: returned_ids_def clip_find_similar_items_def example_candidates_def
          embedded_item_def plain_item_def compute_similarity_def normalise_def np_dot_def
          example_rounds sort_desc_def py_prefix_def)
  ultimately show ?thesis by simp
qed

text \<open>
  Claim C7, amended. No call of \<open>find_similar_items\<close> reports a failure to its caller,
  whatever the query vector (also of length zero) and \<open>top_k\<close> (also negative): each
  call returns a list. With a negative \<open>top_k\<close> that list is the full ranking without
  its last \<open>-top_k\<close> entries.
\<close>

theorem find_similar_items_never_fails:
  "(\<exists>fs. fashion_find_similar_items q its top_k m = Inr fs)
   \<and> (\<exists>cs. clip_find_similar_items q its top_k m = Inr cs)
   \<and> (top_k < 0 \<longrightarrow>
        fashion_find_similar_items q its top_k m
          = without_last (nat (- top_k)) (fashion_find_similar_items q its (int (length its)) m)
        \<and> clip_find_similar_items q its top_k m
          = without_last (nat (- top_k)) (clip_find_similar_items q its (int (length its)) m))"
proof -
  have a: "\<exists>fs. fashion_find_similar_items q its top_k m = Inr fs"
    by (simp add: fashion_find_similar_items_def split: sum.splits)
  have b: "\<exists>cs. clip_find_similar_items q its top_k m = Inr cs"
    by (simp add: clip_find_similar_items_def)
  have c: "fashion_find_similar_items q its top_k m
             = without_last (nat (- top_k)) (fashion_find_similar_items q its (int (length its)) m)"
    if "top_k < 0"
  proof (cases "fashion_scan q m its")
    case (Inl err)
    then show ?thesis by (simp add: fashion_find_similar_items_def without_last_def)
  next
    case (Inr sims)
    then show ?thesis
      using ranked_negative[OF fashion_scan_length[OF Inr] that, where key = similarity_score]
      by (simp add: fashion_find_similar_items_def)
  qed
  have d: "clip_find_similar_items q its top_k m
             = without_last (nat (- top_k)) (clip_find_similar_items q its (int (length its)) m)"
    if "top_k < 0"
    using ranked_negative[OF clip_scan_length[of q m its] that, where key = similarity_score]
    by (simp add: clip_find_similar_items_def)
  show ?thesis using a b c d by blast
qed

lemma example_full_ranking:
  "returned_ids (fashion_find_similar_items [1, 0] example_candidates
                   (int (length example_candidates)) (1 / 5)) = Inr [''b'', ''d'']"
  "returned_ids (fashion_find_similar_items [1, 0] example_candidates (- 1) (1 / 5)) = Inr [''b'']"
  by code_simp+

theorem find_similar_items_never_fails_witness:
  "(- 1 :: int) < 0
   \<and> returned_ids (fashion_find_similar_items [1, 0] example_candidates
                     (int (length example_candidates)) (1 / 5)) = Inr [''b'', ''d'']
   \<and> returned_ids (fashion_find_similar_items [1, 0] example_candidates (- 1) (1 / 5)) = Inr [''b'']
   \<and> fashion_find_similar_items [1, 0] example_candidates (- 1) (1 / 5)
       = without_last 1 (fashion_find_similar_items [1, 0] example_candidates
                           (int (length example_candidates)) (1 / 5))"
  using find_similar_items_never_fails [of "[1, 0]" example_candidates "- 1" "1 / 5"]
        example_full_ranking
  by simp

section \<open>History preference miner\<close>

lemma map_of_upd:
  "map_of (upd k f d m) = (map_of m)(k \<mapsto> f (case map_of m k of None \<Rightarrow> d | Some v \<Rightarrow> v))"
  by (induction m) (auto simp: fun_eq_iff)

lemma keys_upd: "fst ` set (upd k f d m) = insert k (fst ` set m)"
proof (induction m)
  case Nil
  then show ?case by simp
next
  case (Cons p m)
  obtain a b where p: "p = (a, b)" by (cases p)
  show ?case using Cons p by (cases "a = k") auto
qed

lemma distinct_upd: "distinct (map fst m) \<Longrightarrow> distinct (map fst (upd k f d m))"
proof (induction m)
  case Nil
  then show ?case by simp
next
  case (Cons p m)
  obtain a b where p: "p = (a, b)" by (cases p)
  show ?case
  proof (cases "a = k")
    case True
    then show ?thesis using Cons.prems p by simp
  next
    case False
    then show ?thesis using Cons p by (simp add: keys_upd)
  qed
qed

lemma color_scores_mine_item:
  "color_scores (mine_item sc r s it) = credit sc (color_scores s) it"
  by (simp add: mine_item_def credit_def Let_def split: option.splits)

lemma color_scores_items:
  "color_scores (foldl (mine_item sc r) s its) = foldl (credit sc) (color_scores s) its"
  by (induction its arbitrary: s) (simp_all add: color_scores_mine_item)

lemma color_scores_mine_entry:
  "color_scores (mine_entry s e) = foldl (credit (outfit_score e)) (color_scores s) (outfit_items e)"
  by (simp add: mine_entry_def Let_def color_scores_items)

lemma color_scores_history:
  "color_scores (foldl mine_entry s h)
     = foldl (\<lambda>m e. foldl (credit (outfit_score e)) m (outfit_items e)) (color_scores s) h"
  by (induction h arbitrary: s) (simp_all add: color_scores_mine_entry)

lemma credit_value:
  "ledger_value (credit sc m it) c
     = ledger_value m c + (if counted_color c \<and> clean (color it) = c then sc else 0)"
  by (auto simp: credit_def ledger_value_def map_of_upd split: option.splits)

lemma credit_keys:
  "fst ` set (credit sc m it)
     = fst ` set m \<union> (if counted_color (clean (color it)) then {clean (color it)} else {})"
  by (simp add: credit_def keys_upd)

lemma credit_distinct: "distinct (map fst m) \<Longrightarrow> distinct (map fst (credit sc m it))"
  by (simp add: credit_def distinct_upd)

lemma credits_value:
  "ledger_value (foldl (credit sc) m its) c
     = ledger_value m c
       + (if counted_color c then sc * real (length (filter (\<lambda>it. clean (color it) = c) its)) else 0)"
  by (induction its arbitrary: m) (auto simp: credit_value algebra_simps)

lemma credits_keys:
  "fst ` set (foldl (credit sc) m its)
     = fst ` set m \<union> set (filter counted_color (map (\<lambda>it. clean (color it)) its))"
  by (induction its arbitrary: m) (auto simp: credit_keys)

lemma credits_distinct:
  "distinct (map fst m) \<Longrightarrow> distinct (map fst (foldl (credit sc) m its))"
  by (induction its arbitrary: m) (simp_all add: credit_distinct)

lemma history_value:
  "ledger_value (foldl (\<lambda>m e. foldl (credit (outfit_score e)) m (outfit_items e)) m h) c
     = ledger_value m c + (if counted_color c then accumulated h c else 0)"
  by (induction h arbitrary: m)
     (auto simp: credits_value accumulated_def colour_count_def algebra_simps)

lemma history_keys:
  "fst ` set (foldl (\<lambda>m e. foldl (credit (outfit_score e)) m (outfit_items e)) m h)
     = fst ` set m \<union> set (history_colors h)"
  by (induction h arbitrary: m) (auto simp: credits_keys history_colors_def)

lemma history_distinct:
  "distinct (map fst m) \<Longrightarrow>
   distinct (map fst (foldl (\<lambda>m e. foldl (credit (outfit_score e)) m (outfit_items e)) m h))"
  by (induction h arbitrary: m) (simp_all add: credits_distinct)

lemma mined_scores:
  "distinct (map fst (color_scores (mine_history h)))"
  "fst ` set (color_scores (mine_history h)) = set (history_colors h)"
  "c \<in> set (history_colors h) \<Longrightarrow> map_of (color_scores (mine_history h)) c = Some (accumulated h c)"
proof -
  let ?m = "color_scores (mine_history h)"
  have eq: "?m = foldl (\<lambda>m e. foldl (credit (outfit_score e)) m (outfit_items e)) [] h"
    by (simp add: mine_history_def color_scores_history no_mining_def)
  show d: "distinct (map fst ?m)" unfolding eq by (rule history_distinct) simp
  show k: "fst ` set ?m = set (history_colors h)" unfolding eq by (simp add: history_keys)
  assume c: "c \<in> set (history_colors h)"
  then have cc: "counted_color c" by (auto simp: history_colors_def)
  from c k obtain v where v: "map_of ?m c = Some v"
    by (metis domD dom_map_of_conv_image_fst)
  have "ledger_value ?m c = ledger_value [] c + accumulated h c"
    unfolding eq using cc by (simp add: history_value)
  then have "ledger_value ?m c = accumulated h c"
    by (simp add: ledger_value_def)
  then show "map_of ?m c = Some (accumulated h c)"
    using v by (simp add: ledger_value_def)
qed


lemma distinct_sort_desc: "distinct (sort_desc key xs) = distinct xs"
  by (simp add: sort_desc_def)

lemma ledger_pair:
  "distinct (map fst m) \<Longrightarrow> p \<in> set m \<Longrightarrow> ledger_value m (fst p) = snd p"
  by (cases p) (simp add: ledger_value_def)

lemma top_keys:
  assumes d: "distinct (map fst m)"
  shows "length (map fst (take n (sort_desc snd m))) \<le> n"
    and "distinct (map fst (take n (sort_desc snd m)))"
    and "set (map fst (take n (sort_desc snd m))) \<subseteq> fst ` set m"
    and "sorted_wrt (\<ge>) (map (ledger_value m) (map fst (take n (sort_desc snd m))))"
    and "c \<in> fst ` set m \<Longrightarrow> c \<notin> set (map fst (take n (sort_desc snd m))) \<Longrightarrow>
         length (map fst (take n (sort_desc snd m))) = n
         \<and> (\<forall>f \<in> set (map fst (take n (sort_desc snd m))). ledger_value m c \<le> ledger_value m f)"
proof -
  let ?L = "sort_desc snd m"
  have dm: "distinct m" "inj_on fst (set m)"
    using d by (simp_all add: distinct_map)
  have dL: "distinct (map fst ?L)"
    using dm by (simp add: distinct_map distinct_sort_desc)
  have val: "map snd xs = map (ledger_value m) (map fst xs)" if "set xs \<subseteq> set m" for xs
    using that ledger_pair[OF d] by (induction xs) auto
  have sL: "sorted_wrt (\<ge>) (map snd ?L)" by (rule sorted_desc)
  show "length (map fst (take n ?L)) \<le> n" by simp
  show "distinct (map fst (take n ?L))"
    using dL by (simp add: take_map[symmetric] del: take_map)
  show "set (map fst (take n ?L)) \<subseteq> fst ` set m"
    using set_take_subset[of n ?L] by auto
  have "sorted_wrt (\<ge>) (map snd (take n ?L))"
    using sL by (simp add: take_map[symmetric] sorted_wrt_take del: take_map)
  moreover have "set (take n ?L) \<subseteq> set m"
    using set_take_subset[of n ?L] by simp
  ultimately show "sorted_wrt (\<ge>) (map (ledger_value m) (map fst (take n ?L)))"
    using val by simp
  assume c: "c \<in> fst ` set m" and nc: "c \<notin> set (map fst (take n ?L))"
  from c obtain p where p: "p \<in> set m" "fst p = c" by auto
  have "p \<notin> set (take n ?L)" using nc p(2) by force
  moreover have "set ?L = set (take n ?L) \<union> set (drop n ?L)"
    by (metis append_take_drop_id set_append)
  ultimately have pd: "p \<in> set (drop n ?L)" using p(1) by simp
  then have "drop n ?L \<noteq> []" by auto
  then have len: "length (map fst (take n ?L)) = n" by simp
  have "sorted_wrt (\<ge>) (map snd (take n ?L @ drop n ?L))"
    using sL by simp
  then have dom: "\<forall>x \<in> set (take n ?L). \<forall>y \<in> set (drop n ?L). snd y \<le> snd x"
    unfolding map_append sorted_wrt_append by auto
  have "ledger_value m c \<le> ledger_value m f" if "f \<in> set (map fst (take n ?L))" for f
  proof -
    from that obtain x where x: "x \<in> set (take n ?L)" "fst x = f" by auto
    have xm: "x \<in> set m" using x(1) set_take_subset[of n ?L] by auto
    have "snd p \<le> snd x" using dom x(1) pd by blast
    then show ?thesis
      using ledger_pair[OF d xm] ledger_pair[OF d p(1)] x(2) p(2) by simp
  qed
  then show "length (map fst (take n ?L)) = n
         \<and> (\<forall>f \<in> set (map fst (take n ?L)). ledger_value m c \<le> ledger_value m f)"
    using len by blast
qed

lemma favorite_colors_eq:
  "favorite_colors (analyze_user_history h)
     = map fst (take 10 (sort_desc snd (color_scores (mine_history h))))"
  by (simp add: analyze_user_history_def Let_def no_preferences_def mine_history_def
        no_mining_def sort_desc_def)

lemma mined_value:
  "c \<in> set (history_colors h) \<Longrightarrow>
   ledger_value (color_scores (mine_history h)) c = accumulated h c"
  by (simp add: ledger_value_def mined_scores(3))

text \<open>
  Claim C4, as stated, fails. In the example history the first, favourited entry holds
  two navy items and the second, rated 4, holds one: the code accumulates
  \<open>5 + 5 + 4 = 14\<close> for navy, the sum over the entries containing navy is \<open>9\<close>.
  The third entry carries the rating 0 and gets the outfit score \<open>3.0\<close>, not its
  rating.
\<close>

theorem color_scores_counterexample:
  "map_of (color_scores (mine_history example_history)) ''navy'' = Some 14
   \<and> spec_color_score example_history ''navy'' = 9
   \<and> outfit_score (example_history ! 2) = 3
   \<and> spec_outfit_score (example_history ! 2) = 0"
  by code_simp

text \<open>
  Claim C4, amended. An entry's outfit score is 5.0 if it is favourited, else its rating
  if one is present and not zero, else 3.0. The accumulated score of a colour is the
  sum, over all items of all entries whose cleaned colour it is, of the outfit score of
  the item's entry: an entry counts once for each of its items of that colour. The
  favourite colours are at most ten distinct counted colours of the history, in
  descending order of accumulated score, and a counted colour left out is left out of a
  full list of ten whose members all score at least as much.
\<close>

theorem favorite_colors_ranked:
  "(is_favorite e \<longrightarrow> outfit_score e = 5)
   \<and> (\<not> is_favorite e \<and> rating e = Some r \<and> r \<noteq> 0 \<longrightarrow> outfit_score e = real_of_int r)
   \<and> (\<not> is_favorite e \<and> (rating e = None \<or> rating e = Some 0) \<longrightarrow> outfit_score e = 3)
   \<and> map_of (color_scores (mine_history h)) c
       = (if c \<in> set (history_colors h) then Some (accumulated h c) else None)
   \<and> length (favorite_colors (analyze_user_history h)) \<le> 10
   \<and> distinct (favorite_colors (analyze_user_history h))
   \<and> set (favorite_colors (analyze_user_history h)) \<subseteq> set (history_colors h)
   \<and> sorted_wrt (\<ge>) (map (accumulated h) (favorite_colors (analyze_user_history h)))
   \<and> (c \<in> set (history_colors h) \<and> c \<notin> set (favorite_colors (analyze_user_history h)) \<longrightarrow>
        length (favorite_colors (analyze_user_history h)) = 10
        \<and> list_all (\<lambda>f. accumulated h c \<le> accumulated h f)
            (favorite_colors (analyze_user_history h)))"
proof -
  let ?m = "color_scores (mine_history h)"
  let ?favs = "favorite_colors (analyze_user_history h)"
  note d = mined_scores(1)[of h]
  note k = mined_scores(2)[of h]
  have score: "(is_favorite e \<longrightarrow> outfit_score e = 5)
   \<and> (\<not> is_favorite e \<and> rating e = Some r \<and> r \<noteq> 0 \<longrightarrow> outfit_score e = real_of_int r)
   \<and> (\<not> is_favorite e \<and> (rating e = None \<or> rating e = Some 0) \<longrightarrow> outfit_score e = 3)"
    by (auto simp: outfit_score_def)
  have look: "map_of ?m c = (if c \<in> set (history_colors h) then Some (accumulated h c) else None)"
  proof (cases "c \<in> set (history_colors h)")
    case True
    then show ?thesis by (simp add: mined_scores(3))
  next
    case False
    then have "c \<notin> fst ` set ?m" using k by simp
    then have "map_of ?m c = None" by (simp add: map_of_eq_None_iff)
    then show ?thesis using False by simp
  qed
  have sub: "set ?favs \<subseteq> set (history_colors h)"
    using top_keys(3)[OF d, of 10] k by (simp add: favorite_colors_eq)
  have "sorted_wrt (\<ge>) (map (ledger_value ?m) ?favs)"
    using top_keys(4)[OF d, of 10] by (simp add: favorite_colors_eq)
  moreover have "map (ledger_value ?m) ?favs = map (accumulated h) ?favs"
    using sub by (intro map_cong) (auto simp: mined_value)
  ultimately have sorted: "sorted_wrt (\<ge>) (map (accumulated h) ?favs)" by simp
  have dom: "length ?favs = 10 \<and> list_all (\<lambda>f. accumulated h c \<le> accumulated h f) ?favs"
    if "c \<in> set (history_colors h)" "c \<notin> set ?favs"
  proof -
    have "length ?favs = 10 \<and> (\<forall>f \<in> set ?favs. ledger_value ?m c \<le> ledger_value ?m f)"
      using top_keys(5)[OF d, of c 10] that k by (simp add: favorite_colors_eq)
    moreover have "ledger_value ?m f = accumulated h f" if "f \<in> set ?favs" for f
      using sub that by (intro mined_value) blast
    moreover have "ledger_value ?m c = accumulated h c"
      using that(1) by (rule mined_value)
    ultimately show ?thesis
      by (simp add: list_all_iff)
  qed
  show ?thesis
    using score look sub sorted dom top_keys(1)[OF d, of 10] top_keys(2)[OF d, of 10]
    by (simp add: favorite_colors_eq)
qed

lemma example_history_facts:
  "is_favorite (example_history ! 0)"
  "\<not> is_favorite (example_history ! 1) \<and> rating (example_history ! 1) = Some 4"
  "\<not> is_favorite (example_history ! 2) \<and> rating (example_history ! 2) = Some 0"
  "''navy'' \<in> set (history_colors example_history)"
  "accumulated example_history ''navy'' = 14"
  "favorite_colors (analyze_user_history example_history) = [''navy'', ''red'']"
  "''j'' \<in> set (history_colors long_history)"
  "''j'' \<notin> set (favorite_colors (analyze_user_history long_history))"
  by code_simp+

theorem favorite_colors_ranked_witness:
  "outfit_score (example_history ! 0) = 5
   \<and> outfit_score (example_history ! 1) = 4
   \<and> outfit_score (example_history ! 2) = 3
   \<and> map_of (color_scores (mine_history example_history)) ''navy'' = Some 14
   \<and> favorite_colors (analyze_user_history example_history) = [''navy'', ''red'']
   \<and> ''j'' \<in> set (history_colors long_history)
   \<and> ''j'' \<notin> set (favorite_colors (analyze_user_history long_history))
   \<and> length (favorite_colors (analyze_user_history long_history)) = 10
   \<and> list_all (\<lambda>f. accumulated long_history ''j'' \<le> accumulated long_history f)
         (favorite_colors (analyze_user_history long_history))"
  using favorite_colors_ranked [of "example_history ! 0" 0 example_history "''navy''"]
        favorite_colors_ranked [of "example_history ! 1" 4 example_history "''navy''"]
        favorite_colors_ranked [of "example_history ! 2" 0 example_history "''navy''"]
        favorite_colors_ranked [of "example_history ! 0" 0 long_history "''j''"]
        example_history_facts
  by simp

section \<open>Personalized re-ranking\<close>

lemma personalized_score_bounds:
  "0 \<le> calculate_personalized_score b prefs occ \<and> calculate_personalized_score b prefs occ \<le> 100"
  by (simp add: calculate_personalized_score_def clamp100_def Let_def split: option.splits)

lemma blended_copy_all: "blended_copy prefs occ b"
  using personalized_score_bounds[of b prefs occ]
  by (simp add: blended_copy_def personalize_def rank_key_def blend_def Let_def)

lemma base_sorted:
  "sorted_wrt (\<ge>) (map c_style_score (base_candidates w weather occ specific))"
  by (simp add: base_candidates_def create_outfit_combinations_def Let_def sorted_desc)

text \<open>
  Claim C5. When the profile has at least one favourite colour, personalization is
  flagged active; the ranking consists of the personalized copies of the base candidates,
  each carrying its personalized score, which lies in \<open>[0, 100]\<close>, and the combined
  score \<open>0.4 base + 0.6 personalized\<close>, by which it is ranked; the ranking is in
  descending order of that score, and its first five entries are returned. When the
  profile has no favourite colour (or there is no profile), personalization is flagged
  inactive and the candidates keep their base score and their order, which is descending
  in the base score.
\<close>

theorem rerank_blends_scores:
  "(has_favorites prefs \<longrightarrow>
      personalization_active (generate_recommendations w weather occ specific prefs)
      \<and> rec_outfits (generate_recommendations w weather occ specific prefs)
          = take 5 (ranking w weather occ specific prefs)
      \<and> length (ranking w weather occ specific prefs)
          = length (base_candidates w weather occ specific)
      \<and> set (ranking w weather occ specific prefs)
          = personalize prefs occ ` set (base_candidates w weather occ specific)
      \<and> list_all (blended_copy prefs occ) (base_candidates w weather occ specific)
      \<and> sorted_wrt (\<ge>) (map rank_key (ranking w weather occ specific prefs))
      \<and> sorted_wrt (\<ge>) (map rank_key (rec_outfits (generate_recommendations w weather occ specific prefs))))
   \<and> (\<not> has_favorites prefs \<longrightarrow>
      \<not> personalization_active (generate_recommendations w weather occ specific prefs)
      \<and> rec_outfits (generate_recommendations w weather occ specific prefs)
          = take 5 (ranking w weather occ specific prefs)
      \<and> map c_items (ranking w weather occ specific prefs)
          = map c_items (base_candidates w weather occ specific)
      \<and> map rank_key (ranking w weather occ specific prefs)
          = map c_style_score (base_candidates w weather occ specific)
      \<and> sorted_wrt (\<ge>) (map rank_key (ranking w weather occ specific prefs))
      \<and> list_all (\<lambda>out. history_based out = Some False \<and> personalized_score out = None)
           (ranking w weather occ specific prefs))"
proof -
  let ?base = "base_candidates w weather occ specific"
  let ?rank = "ranking w weather occ specific prefs"
  let ?r = "generate_recommendations w weather occ specific prefs"
  have out: "rec_outfits ?r = take 5 ?rank"
    by (simp add: generate_recommendations_def ranking_def base_candidates_def Let_def)
  have act: "personalization_active ?r = has_favorites prefs"
    by (simp add: generate_recommendations_def Let_def)
  have fresh: "c_combined_score b = None \<and> personalized_score b = None" if "b \<in> set ?base" for b
    using that
    by (auto simp: base_candidates_def create_outfit_combinations_def Let_def make_candidate_def
             split: if_splits)
  show ?thesis
  proof (cases "has_favorites prefs")
    case True
    have r: "?rank = sort_desc rank_key (map (personalize prefs occ) ?base)"
      using True by (simp add: ranking_def rank_candidates_def)
    have s: "sorted_wrt (\<ge>) (map rank_key ?rank)"
      unfolding r by (rule sorted_desc)
    then have "sorted_wrt (\<ge>) (map rank_key (take 5 ?rank))"
      by (simp add: take_map[symmetric] sorted_wrt_take del: take_map)
    moreover have "list_all (blended_copy prefs occ) ?base"
      by (simp add: list_all_iff blended_copy_all)
    ultimately show ?thesis
      using True out act s by (simp add: r)
  next
    case False
    have r: "?rank = map (\<lambda>out. out\<lparr>history_based := Some False\<rparr>) ?base"
      using False by (simp add: ranking_def rank_candidates_def)
    have k: "map rank_key ?rank = map c_style_score ?base"
      unfolding r using fresh by (simp add: rank_key_def)
    have s: "sorted_wrt (\<ge>) (map rank_key ?rank)"
      unfolding k by (rule base_sorted)
    have i: "map c_items ?rank = map c_items ?base"
      unfolding r by simp
    have "list_all (\<lambda>out. history_based out = Some False \<and> personalized_score out = None) ?rank"
      unfolding r using fresh by (simp add: list_all_iff)
    then show ?thesis
      using False out act k s i by simp
  qed
qed

lemma example_ranking_facts:
  "has_favorites (Some (analyze_user_history example_history))"
  "map rank_key (rec_outfits (generate_recommendations example_closet None ''casual'' []
                   (Some (analyze_user_history example_history)))) = [96, 88]"
  "\<not> has_favorites None"
  "map c_style_score (base_candidates example_closet None ''casual'' []) = [90, 70]"
  by code_simp+

theorem rerank_blends_scores_witness:
  "has_favorites (Some (analyze_user_history example_history))
   \<and> personalization_active (generate_recommendations example_closet None ''casual'' []
         (Some (analyze_user_history example_history)))
   \<and> map rank_key (rec_outfits (generate_recommendations example_closet None ''casual'' []
         (Some (analyze_user_history example_history)))) = [96, 88]
   \<and> list_all (blended_copy (Some (analyze_user_history example_history)) ''casual'')
         (base_candidates example_closet None ''casual'' [])
   \<and> \<not> has_favorites None
   \<and> \<not> personalization_active (generate_recommendations example_closet None ''casual'' [] None)
   \<and> map rank_key (ranking example_closet None ''casual'' [] None) = [90, 70]"
  using rerank_blends_scores
          [of "Some (analyze_user_history example_history)" example_closet None "''casual''" "[]"]
        rerank_blends_scores [of None example_closet None "''casual''" "[]"]
        example_ranking_facts
  by simp

section \<open>The empty wardrobe\<close>

text \<open>
  Claim C6. When the wardrobe the service reads holds no item, the entry point returns a
  response with \<open>success = false\<close>, no outfit and zero combinations; every exception
  of a query is a branch that ends in such a response. With a reachable store and a known
  user, the service's result is the structured failure
  \<open>No clothing items in wardrobe\<close>.
\<close>

theorem empty_wardrobe_fails_soft:
  "(empty_wardrobe b \<longrightarrow>
      success (recommendations_route b location occ include_items) = False
      \<and> outfits (recommendations_route b location occ include_items) = []
      \<and> resp_total_combinations (recommendations_route b location occ include_items) = 0)
   \<and> (get_database b = None \<and> find_user b = Inr (Some usr) \<and> clothing_by_object_id b = Inr [] \<longrightarrow>
      get_personalized_recommendations b location occ include_items
        = Failed ''No clothing items in wardrobe'' (Some ''Add some items to your wardrobe first!'')
      \<and> error_message (recommendations_route b location occ include_items)
          = Some ''No clothing items in wardrobe'')"
proof -
  have fail: "\<exists>msg sugg. get_personalized_recommendations b location occ include_items = Failed msg sugg"
    if "empty_wardrobe b"
    using that
    by (auto simp: get_personalized_recommendations_def empty_wardrobe_def no_items_def
             split: option.splits sum.splits)
  have a: "success (recommendations_route b location occ include_items) = False
      \<and> outfits (recommendations_route b location occ include_items) = []
      \<and> resp_total_combinations (recommendations_route b location occ include_items) = 0"
    if "empty_wardrobe b"
    using fail[OF that] by (auto simp: recommendations_route_def split: if_splits)
  have b: "get_personalized_recommendations b location occ include_items
        = Failed ''No clothing items in wardrobe'' (Some ''Add some items to your wardrobe first!'')"
    if "get_database b = None" "find_user b = Inr (Some usr)" "clothing_by_object_id b = Inr []"
    using that by (simp add: get_personalized_recommendations_def)
  have c: "error_message (recommendations_route b location occ include_items)
          = Some ''No clothing items in wardrobe''"
    if "get_database b = None" "find_user b = Inr (Some usr)" "clothing_by_object_id b = Inr []"
    unfolding recommendations_route_def b[OF that] by simp
  show ?thesis using a b c by blast
qed

lemma example_backend_facts:
  "empty_wardrobe (example_backend (Inr []))"
  "empty_wardrobe (example_backend (Inl (Exn ''timeout'')))"
  "get_database (example_backend (Inr [])) = None"
  "find_user (example_backend (Inr [])) = Inr (Some \<lparr>style_preferences = [''casual'']\<rparr>)"
  "clothing_by_object_id (example_backend (Inr [])) = Inr []"
  by (simp_all add: empty_wardrobe_def example_backend_def no_items_def)

theorem empty_wardrobe_fails_soft_witness:
  "empty_wardrobe (example_backend (Inr []))
   \<and> success (recommendations_route (example_backend (Inr [])) None None []) = False
   \<and> outfits (recommendations_route (example_backend (Inr [])) None None []) = []
   \<and> error_message (recommendations_route (example_backend (Inr [])) None None [])
       = Some ''No clothing items in wardrobe''
   \<and> empty_wardrobe (example_backend (Inl (Exn ''timeout'')))
   \<and> success (recommendations_route (example_backend (Inl (Exn ''timeout''))) None None [])
       = False"
  using empty_wardrobe_fails_soft
          [of "example_backend (Inr [])" None None "[]" "\<lparr>style_preferences = [''casual'']\<rparr>"]
        empty_wardrobe_fails_soft
          [of "example_backend (Inl (Exn ''timeout''))" None None "[]"
              "\<lparr>style_preferences = [''casual'']\<rparr>"]
        example_backend_facts
  by simp

end
